theory Spec2Isabelle
  imports Complex_Main "HOL-Library.Log_Nat"
begin

section \<open>ECMAScript numbers\<close>

text \<open>
  Every number of the program is an IEEE 754 binary64 value. A finite one is modelled by
  the real it denotes, the three special values by constructors of their own. The sign
  of a zero is not kept: \<open>Finite 0\<close> stands for both zeros, and a division by it
  behaves as a division by \<open>+0\<close>.
\<close>

datatype number = Finite real | PosInfinity | NegInfinity | NaN

text \<open>
  \<open>binade x\<close> is the exponent \<open>e\<close> with \<open>2^e \<le> |x| < 2^(e+1)\<close> of a nonzero \<open>x\<close>,
  computed from the bit length of an integer so that it evaluates on rationals.
\<close>

definition binade :: "real \<Rightarrow> int" where
  "binade x =
     (if 1 \<le> \<bar>x\<bar> then bitlen \<lfloor>\<bar>x\<bar>\<rfloor> - 1 else - bitlen (\<lceil>1 / \<bar>x\<bar>\<rceil> - 1))"

text \<open>
  The spacing of the doubles around \<open>x\<close>: 52 fraction bits below the leading one, and the
  fixed spacing \<open>2^-1074\<close> of the subnormal range below \<open>2^-1022\<close>.
\<close>

definition quantum :: "real \<Rightarrow> real" where
  "quantum x = 2 powi (max (binade x) (- 1022) - 52)"

definition round_half_even :: "real \<Rightarrow> int" where
  "round_half_even y =
     (let f = \<lfloor>y\<rfloor> in
      if y - of_int f < 1 / 2 then f
      else if 1 / 2 < y - of_int f then f + 1
      else if even f then f else f + 1)"

definition nearest_double :: "real \<Rightarrow> real" where
  "nearest_double x =
     (if x = 0 then 0 else of_int (round_half_even (x / quantum x)) * quantum x)"

text \<open>Round to nearest, ties to even, overflowing to an infinity from \<open>2^1024\<close> on.\<close>

definition round_to_double :: "real \<Rightarrow> number" where
  "round_to_double x =
     (let r = nearest_double x in
      if 2 ^ 1024 \<le> r then PosInfinity
      else if r \<le> - (2 ^ 1024) then NegInfinity
      else Finite r)"

text \<open>The arithmetic operators \<open>*\<close>, \<open>/\<close>, \<open>+\<close> and \<open>-\<close> on numbers.\<close>

fun num_mul :: "number \<Rightarrow> number \<Rightarrow> number" where
  "num_mul NaN _ = NaN"
| "num_mul _ NaN = NaN"
| "num_mul (Finite a) (Finite b) = round_to_double (a * b)"
| "num_mul (Finite a) PosInfinity =
     (if a = 0 then NaN else if 0 < a then PosInfinity else NegInfinity)"
| "num_mul (Finite a) NegInfinity =
     (if a = 0 then NaN else if 0 < a then NegInfinity else PosInfinity)"
| "num_mul PosInfinity (Finite b) =
     (if b = 0 then NaN else if 0 < b then PosInfinity else NegInfinity)"
| "num_mul NegInfinity (Finite b) =
     (if b = 0 then NaN else if 0 < b then NegInfinity else PosInfinity)"
| "num_mul PosInfinity PosInfinity = PosInfinity"
| "num_mul PosInfinity NegInfinity = NegInfinity"
| "num_mul NegInfinity PosInfinity = NegInfinity"
| "num_mul NegInfinity NegInfinity = PosInfinity"

fun num_div :: "number \<Rightarrow> number \<Rightarrow> number" where
  "num_div NaN _ = NaN"
| "num_div _ NaN = NaN"
| "num_div (Finite a) (Finite b) =
     (if b = 0 then (if a = 0 then NaN else if 0 < a then PosInfinity else NegInfinity)
      else round_to_double (a / b))"
| "num_div (Finite a) PosInfinity = Finite 0"
| "num_div (Finite a) NegInfinity = Finite 0"
| "num_div PosInfinity (Finite b) = (if 0 \<le> b then PosInfinity else NegInfinity)"
| "num_div NegInfinity (Finite b) = (if 0 \<le> b then NegInfinity else PosInfinity)"
| "num_div PosInfinity PosInfinity = NaN"
| "num_div PosInfinity NegInfinity = NaN"
| "num_div NegInfinity PosInfinity = NaN"
| "num_div NegInfinity NegInfinity = NaN"

fun num_add :: "number \<Rightarrow> number \<Rightarrow> number" where
  "num_add NaN _ = NaN"
| "num_add _ NaN = NaN"
| "num_add (Finite a) (Finite b) = round_to_double (a + b)"
| "num_add (Finite a) PosInfinity = PosInfinity"
| "num_add (Finite a) NegInfinity = NegInfinity"
| "num_add PosInfinity (Finite b) = PosInfinity"
| "num_add NegInfinity (Finite b) = NegInfinity"
| "num_add PosInfinity PosInfinity = PosInfinity"
| "num_add PosInfinity NegInfinity = NaN"
| "num_add NegInfinity PosInfinity = NaN"
| "num_add NegInfinity NegInfinity = NegInfinity"

fun num_neg :: "number \<Rightarrow> number" where
  "num_neg NaN = NaN"
| "num_neg (Finite a) = Finite (- a)"
| "num_neg PosInfinity = NegInfinity"
| "num_neg NegInfinity = PosInfinity"

definition num_sub :: "number \<Rightarrow> number \<Rightarrow> number" where
  "num_sub a b = num_add a (num_neg b)"

text \<open>The comparison \<open>a < b\<close>, false as soon as one side is \<open>NaN\<close>; \<open>a > b\<close> is \<open>b < a\<close>.\<close>

fun num_less :: "number \<Rightarrow> number \<Rightarrow> bool" where
  "num_less NaN _ = False"
| "num_less _ NaN = False"
| "num_less (Finite a) (Finite b) = (a < b)"
| "num_less (Finite a) PosInfinity = True"
| "num_less (Finite a) NegInfinity = False"
| "num_less PosInfinity _ = False"
| "num_less NegInfinity NegInfinity = False"
| "num_less NegInfinity _ = True"

text \<open>\<open>Math.max\<close>, \<open>Math.min\<close> (both \<open>NaN\<close> as soon as one argument is), \<open>Math.floor\<close>
  and \<open>Math.round\<close> (nearest integer, a tie going up).\<close>

definition Math_max :: "number \<Rightarrow> number \<Rightarrow> number" where
  "Math_max a b = (if a = NaN \<or> b = NaN then NaN else if num_less a b then b else a)"

definition Math_min :: "number \<Rightarrow> number \<Rightarrow> number" where
  "Math_min a b = (if a = NaN \<or> b = NaN then NaN else if num_less b a then b else a)"

fun Math_floor :: "number \<Rightarrow> number" where
  "Math_floor (Finite a) = Finite (of_int \<lfloor>a\<rfloor>)"
| "Math_floor n = n"

fun Math_round :: "number \<Rightarrow> number" where
  "Math_round (Finite a) = Finite (of_int \<lfloor>a + 1 / 2\<rfloor>)"
| "Math_round n = n"

text \<open>Truthiness of a number (\<open>0\<close> and \<open>NaN\<close> are falsy) and of a possibly undefined one.\<close>

fun truthy :: "number \<Rightarrow> bool" where
  "truthy (Finite a) = (a \<noteq> 0)"
| "truthy NaN = False"
| "truthy _ = True"

fun truthy_opt :: "number option \<Rightarrow> bool" where
  "truthy_opt None = False"
| "truthy_opt (Some n) = truthy n"

section \<open>Data model (types.ts)\<close>

record QualityOfLifeData =
  qol_value :: number
  qol_source :: string

record QualityOfLife =
  unemploymentRate :: QualityOfLifeData
  lifeExpectancy :: QualityOfLifeData
  safetyIndex :: QualityOfLifeData
  healthCareIndex :: QualityOfLifeData
  pollutionIndex :: QualityOfLifeData
  propertyPriceToIncomeRatio :: QualityOfLifeData

record SelectableCountry =
  code :: string
  name :: string
  currency :: string

record Metadata =
  economicDataSource :: string
  dataSourceUrl :: "string option"
  lastUpdate :: string

text \<open>
  \<open>CountryData\<close> carries the three fields of a \<open>SelectableCountry\<close> and five more. An
  entry restored from the browser's store is unchecked JSON, so its \<open>priceIndex\<close> can be
  missing at run time, which the calculator tests for: the field is optional here.
\<close>

record CountryData = SelectableCountry +
  priceIndex :: "number option"
  averageSalaryEUR :: number
  qualityOfLife :: QualityOfLife
  categoryPrices :: "string \<rightharpoonup> number"
  metadata :: Metadata

record PriceLevelData =
  categoryId :: string
  percentageDiff :: number

section \<open>The purchasing-power calculator (App, useMemo blocks)\<close>

record EquivalentSalary =
  equivalentSalary :: number
  equivalentSalaryInEUR :: number

definition zero_result :: EquivalentSalary where
  "zero_result = \<lparr>equivalentSalary = Finite 0, equivalentSalaryInEUR = Finite 0\<rparr>"

text \<open>\<open>cur === 'EUR' ? 1 : rates[cur]\<close>: undefined when the map has no such key.\<close>

definition rate_of :: "(string \<rightharpoonup> number) \<Rightarrow> string \<Rightarrow> number option" where
  "rate_of rates cur = (if cur = ''EUR'' then Some (Finite 1) else rates cur)"

text \<open>
  The memoised computation of \<open>equivalentSalary\<close> and \<open>equivalentSalaryInEUR\<close>. Its first
  argument is what \<open>parseFloat(salary)\<close> returned; \<open>|| 0\<close> replaces a falsy one by 0.
\<close>

definition computeEquivalentSalary ::
  "number \<Rightarrow> CountryData option \<Rightarrow> CountryData option \<Rightarrow> (string \<rightharpoonup> number) option \<Rightarrow>
   SelectableCountry \<Rightarrow> SelectableCountry \<Rightarrow> EquivalentSalary" where
  "computeEquivalentSalary parsedSalary fromCountryData toCountryData rates fromCountry toCountry =
     (case fromCountryData of None \<Rightarrow> zero_result | Some fd \<Rightarrow>
     (case toCountryData of None \<Rightarrow> zero_result | Some td \<Rightarrow>
     (case rates of None \<Rightarrow> zero_result | Some r \<Rightarrow>
     (case priceIndex fd of None \<Rightarrow> zero_result | Some fromIndex \<Rightarrow>
     (case priceIndex td of None \<Rightarrow> zero_result | Some toIndex \<Rightarrow>
        if \<not> truthy fromIndex \<or> \<not> truthy toIndex then zero_result
        else
          let numericSalary = (if truthy parsedSalary then parsedSalary else Finite 0) in
          (case rate_of r (currency fromCountry) of None \<Rightarrow> zero_result | Some fromRate \<Rightarrow>
          (case rate_of r (currency toCountry) of None \<Rightarrow> zero_result | Some toRate \<Rightarrow>
             if \<not> truthy fromRate \<or> \<not> truthy toRate then zero_result
             else
               let salaryInEUR = num_div numericSalary fromRate;
                   pppAdjustedSalaryInEUR = num_mul salaryInEUR (num_div toIndex fromIndex);
                   finalEquivalentSalary = num_mul pppAdjustedSalaryInEUR toRate
               in \<lparr>equivalentSalary = finalEquivalentSalary,
                   equivalentSalaryInEUR = pppAdjustedSalaryInEUR\<rparr>)))))))"

text \<open>
  The two conditions under which the computation gives up at once: the data of a country
  is not loaded or its price index is missing, zero or \<open>NaN\<close>; there is no rates map
  or the country's currency has no rate in it (or a zero or \<open>NaN\<close> one).
\<close>

definition index_unusable :: "CountryData option \<Rightarrow> bool" where
  "index_unusable d = (case d of None \<Rightarrow> True | Some cd \<Rightarrow> \<not> truthy_opt (priceIndex cd))"

definition rate_unavailable :: "(string \<rightharpoonup> number) option \<Rightarrow> SelectableCountry \<Rightarrow> bool" where
  "rate_unavailable rts country =
     (case rts of None \<Rightarrow> True | Some r \<Rightarrow> \<not> truthy_opt (rate_of r (currency country)))"

text \<open>
  The salary state. It starts as \<open>'50000'\<close> and is set only by \<open>handleSalaryChange\<close>,
  which keeps the decimal digits of the input's text and drops every other character.
  On such a string \<open>parseFloat\<close> gives \<open>NaN\<close> when it is empty and otherwise the double
  nearest to the number written (beyond 20 significant digits the language lets an
  implementation differ in the last place, never in the sign).
\<close>

definition handleSalaryChange :: "string \<Rightarrow> string" where
  "handleSalaryChange input_value = filter (\<lambda>ch. ch \<in> set ''0123456789'') input_value"

definition decimal_value :: "string \<Rightarrow> nat" where
  "decimal_value digits = foldl (\<lambda>n ch. 10 * n + (of_char ch - of_char CHR ''0'')) 0 digits"

definition parseFloat_digits :: "string \<Rightarrow> number" where
  "parseFloat_digits digits =
     (if digits = [] then NaN else round_to_double (of_nat (decimal_value digits)))"

text \<open>
  The category comparator. \<open>CATEGORIES\<close> comes from a module that is not part of the
  sources at hand; only the \<open>id\<close> of a category is read, so the list of ids is a
  parameter. The index of a category is the overall price index for \<open>total\<close> and the
  category's own price otherwise, undefined when the data has none.
\<close>

definition category_index :: "CountryData \<Rightarrow> string \<Rightarrow> number option" where
  "category_index d category_id =
     (if category_id = ''total'' then priceIndex d else categoryPrices d category_id)"

definition priceLevelEntry :: "CountryData \<Rightarrow> CountryData \<Rightarrow> string \<Rightarrow> PriceLevelData" where
  "priceLevelEntry fromCountryData toCountryData category_id =
     (case category_index fromCountryData category_id of
        None \<Rightarrow> \<lparr>categoryId = category_id, percentageDiff = Finite 0\<rparr>
      | Some fromIndex \<Rightarrow>
     (case category_index toCountryData category_id of
        None \<Rightarrow> \<lparr>categoryId = category_id, percentageDiff = Finite 0\<rparr>
      | Some toIndex \<Rightarrow>
          if fromIndex = Finite 0 then \<lparr>categoryId = category_id, percentageDiff = Finite 0\<rparr>
          else \<lparr>categoryId = category_id,
                percentageDiff =
                  num_mul (num_sub (num_div toIndex fromIndex) (Finite 1)) (Finite 100)\<rparr>))"

definition priceLevelData ::
  "string list \<Rightarrow> CountryData option \<Rightarrow> CountryData option \<Rightarrow> PriceLevelData list" where
  "priceLevelData CATEGORIES_ids fromCountryData toCountryData =
     (case fromCountryData of
        None \<Rightarrow> []
      | Some fd \<Rightarrow>
          (case toCountryData of
             None \<Rightarrow> []
           | Some td \<Rightarrow> map (priceLevelEntry fd td) CATEGORIES_ids))"

section \<open>The environment and the state of the application\<close>

text \<open>
  What the code reads from outside itself: the clock (the ISO date of today for the
  rates, the pair of year and month that makes up the month key for the country data),
  the outcome of the request to the exchange-rate service, whether the browser's store
  refuses a write, the platform's \<open>Math.sin\<close> on the integers it is called with (the
  language leaves its exact values to the implementation), and the two constant lists
  \<open>CATEGORIES\<close> (ids only) and \<open>SELECTABLE_COUNTRIES\<close> of a module that is not part of the
  sources at hand.
\<close>

datatype fetch_outcome = FetchFailed | FetchOk "string \<rightharpoonup> number"

record env =
  today :: string
  currentMonthKey :: "int \<times> nat"
  fetch_response :: fetch_outcome
  setItem_throws :: bool
  Math_sin :: "int \<Rightarrow> real"
  CATEGORIES :: "string list"
  SELECTABLE_COUNTRIES :: "SelectableCountry list"

text \<open>
  The two kinds of entries of the browser's store, as \<open>JSON.parse\<close> finds them: none,
  one that does not parse, or an object with its date (month key) and its rates (data),
  the latter possibly missing. A stored value is kept as the value it was written from.
\<close>

datatype rates_entry = NoRates | BadRates | RatesSnapshot string "(string \<rightharpoonup> number) option"

datatype data_entry = BadData | DataSnapshot "int \<times> nat" "CountryData option"

text \<open>The effects a claim is about, in the order in which they happen.\<close>

datatype effect =
    NetworkRequest
  | RatesPersisted
  | RatesUsed
  | GenerationStarted string
  | DataPersisted string
  | CacheWritten string

record AppState =
  rates :: "(string \<rightharpoonup> number) option"
  ratesLastUpdated :: "string option"
  isLoadingRates :: bool
  ratesError :: bool
  countryDataCache :: "string \<rightharpoonup> CountryData"
  isLoadingData :: "string \<rightharpoonup> bool"
  dataError :: "string \<rightharpoonup> string option"
  fetchingRef :: "string set"
  cacheRef :: "string \<rightharpoonup> CountryData"
  rates_store :: rates_entry
  data_store :: "string \<rightharpoonup> data_entry"
  effects :: "effect list"

section \<open>The exchange-rate cache (fetchRates)\<close>

text \<open>The part of \<open>fetchRates\<close> after the look at the store: the request and what follows.\<close>

definition requestRates :: "env \<Rightarrow> AppState \<Rightarrow> AppState" where
  "requestRates e s =
     (let s1 = s\<lparr>isLoadingRates := True, ratesError := False,
                  effects := effects s @ [NetworkRequest]\<rparr>
      in case fetch_response e of
           FetchFailed \<Rightarrow> s1\<lparr>ratesError := True, isLoadingRates := False\<rparr>
         | FetchOk data_rates \<Rightarrow>
             let newRates = data_rates(''EUR'' \<mapsto> Finite 1) in
             if setItem_throws e then s1\<lparr>ratesError := True, isLoadingRates := False\<rparr>
             else s1\<lparr>rates_store := RatesSnapshot (today e) (Some newRates),
                     rates := Some newRates,
                     ratesLastUpdated := Some (today e),
                     effects := effects s1 @ [RatesPersisted, RatesUsed],
                     isLoadingRates := False\<rparr>)"

definition fetchRates :: "env \<Rightarrow> AppState \<Rightarrow> AppState" where
  "fetchRates e s =
     (case rates_store s of
        RatesSnapshot cached_date (Some cached_rates) \<Rightarrow>
          if cached_date = today e
          then s\<lparr>rates := Some cached_rates, ratesLastUpdated := Some cached_date,
                 isLoadingRates := False\<rparr>
          else requestRates e s
      | _ \<Rightarrow> requestRates e s)"

section \<open>The simulated data engine\<close>

datatype region = EU | NA | ASIA | OTHER

record profile =
  salary :: number
  index :: number
  region :: region

definition COUNTRY_PROFILES :: "(string \<times> profile) list" where
  "COUNTRY_PROFILES =
    [(''CH'', \<lparr>salary = Finite 85000, index = Finite 158, region = OTHER\<rparr>),
     (''IS'', \<lparr>salary = Finite 75000, index = Finite 150, region = OTHER\<rparr>),
     (''LU'', \<lparr>salary = Finite 78000, index = Finite 135, region = EU\<rparr>),
     (''NO'', \<lparr>salary = Finite 65000, index = Finite 138, region = OTHER\<rparr>),
     (''US'', \<lparr>salary = Finite 72000, index = Finite 140, region = NA\<rparr>),
     (''DK'', \<lparr>salary = Finite 62000, index = Finite 130, region = EU\<rparr>),
     (''IE'', \<lparr>salary = Finite 55000, index = Finite 125, region = EU\<rparr>),
     (''AU'', \<lparr>salary = Finite 58000, index = Finite 125, region = OTHER\<rparr>),
     (''SG'', \<lparr>salary = Finite 60000, index = Finite 130, region = ASIA\<rparr>),
     (''SE'', \<lparr>salary = Finite 48000, index = Finite 110, region = EU\<rparr>),
     (''FI'', \<lparr>salary = Finite 47000, index = Finite 112, region = EU\<rparr>),
     (''NL'', \<lparr>salary = Finite 52000, index = Finite 115, region = EU\<rparr>),
     (''GB'', \<lparr>salary = Finite 48000, index = Finite 115, region = OTHER\<rparr>),
     (''AT'', \<lparr>salary = Finite 51000, index = Finite 108, region = EU\<rparr>),
     (''DE'', \<lparr>salary = Finite 53000, index = Finite 106, region = EU\<rparr>),
     (''BE'', \<lparr>salary = Finite 50000, index = Finite 109, region = EU\<rparr>),
     (''FR'', \<lparr>salary = Finite 42000, index = Finite 105, region = EU\<rparr>),
     (''CA'', \<lparr>salary = Finite 48000, index = Finite 105, region = NA\<rparr>),
     (''NZ'', \<lparr>salary = Finite 45000, index = Finite 105, region = OTHER\<rparr>),
     (''IT'', \<lparr>salary = Finite 32000, index = Finite 98, region = EU\<rparr>),
     (''ES'', \<lparr>salary = Finite 28000, index = Finite 90, region = EU\<rparr>),
     (''JP'', \<lparr>salary = Finite 38000, index = Finite 95, region = ASIA\<rparr>),
     (''KR'', \<lparr>salary = Finite 36000, index = Finite 90, region = ASIA\<rparr>),
     (''CY'', \<lparr>salary = Finite 25000, index = Finite 88, region = EU\<rparr>),
     (''SI'', \<lparr>salary = Finite 28000, index = Finite 87, region = EU\<rparr>),
     (''MT'', \<lparr>salary = Finite 26000, index = Finite 86, region = EU\<rparr>),
     (''PT'', \<lparr>salary = Finite 22000, index = Finite 82, region = EU\<rparr>),
     (''EE'', \<lparr>salary = Finite 24000, index = Finite 80, region = EU\<rparr>),
     (''CZ'', \<lparr>salary = Finite 23000, index = Finite 78, region = EU\<rparr>),
     (''GR'', \<lparr>salary = Finite 19000, index = Finite 78, region = EU\<rparr>),
     (''SK'', \<lparr>salary = Finite 20000, index = Finite 75, region = EU\<rparr>),
     (''LV'', \<lparr>salary = Finite 20000, index = Finite 75, region = EU\<rparr>),
     (''LT'', \<lparr>salary = Finite 21000, index = Finite 72, region = EU\<rparr>),
     (''PL'', \<lparr>salary = Finite 18000, index = Finite 65, region = EU\<rparr>),
     (''HR'', \<lparr>salary = Finite 18000, index = Finite 68, region = EU\<rparr>),
     (''HU'', \<lparr>salary = Finite 16000, index = Finite 62, region = EU\<rparr>),
     (''RO'', \<lparr>salary = Finite 14000, index = Finite 55, region = EU\<rparr>),
     (''BG'', \<lparr>salary = Finite 12000, index = Finite 52, region = EU\<rparr>),
     (''TR'', \<lparr>salary = Finite 9000, index = Finite 45, region = OTHER\<rparr>),
     (''MK'', \<lparr>salary = Finite 8500, index = Finite 48, region = OTHER\<rparr>),
     (''RS'', \<lparr>salary = Finite 10000, index = Finite 52, region = OTHER\<rparr>),
     (''ME'', \<lparr>salary = Finite 10000, index = Finite 55, region = OTHER\<rparr>),
     (''BA'', \<lparr>salary = Finite 9500, index = Finite 50, region = OTHER\<rparr>),
     (''AL'', \<lparr>salary = Finite 8000, index = Finite 48, region = OTHER\<rparr>),
     (''TH'', \<lparr>salary = Finite 12000, index = Finite 45, region = ASIA\<rparr>),
     (''CN'', \<lparr>salary = Finite 18000, index = Finite 55, region = ASIA\<rparr>),
     (''BR'', \<lparr>salary = Finite 11000, index = Finite 50, region = OTHER\<rparr>),
     (''MX'', \<lparr>salary = Finite 12000, index = Finite 48, region = NA\<rparr>),
     (''AE'', \<lparr>salary = Finite 55000, index = Finite 90, region = ASIA\<rparr>)]"

definition default_profile :: profile where
  "default_profile = \<lparr>salary = Finite 20000, index = Finite 70, region = OTHER\<rparr>"

text \<open>
  The seeded pseudo-random function. \<open>hash << 5\<close> and \<open>hash & hash\<close> convert to a signed
  32-bit integer; the subtraction and the addition between them are exact in a double.
  \<open>charCodeAt\<close> gives the UTF-16 code unit, which for the ASCII seeds in use (country
  codes and salts) is the character's byte.
\<close>

definition toInt32 :: "int \<Rightarrow> int" where
  "toInt32 n = (n + 2 ^ 31) mod 2 ^ 32 - 2 ^ 31"

definition hash_step :: "int \<Rightarrow> char \<Rightarrow> int" where
  "hash_step hash ch = toInt32 ((toInt32 (hash * 2 ^ 5) - hash) + of_char ch)"

definition seed_hash :: "string \<Rightarrow> int" where
  "seed_hash seed = foldl hash_step 0 seed"

text \<open>
  The polynomial \<open>c\<^sub>0 31\<^sup>n\<^sup>-\<^sup>1 + \<dots> + c\<^sub>n\<^sub>-\<^sub>1\<close> of the code units of a string over the
  unbounded integers, against which the 32-bit rolling hash is compared.
\<close>

definition polynomial_hash :: "string \<Rightarrow> int" where
  "polynomial_hash seed = foldl (\<lambda>h ch. 31 * h + of_char ch) 0 seed"

definition pseudoRandom :: "env \<Rightarrow> string \<Rightarrow> number" where
  "pseudoRandom e seed =
     (let hash = seed_hash seed;
          x = num_mul (Finite (Math_sin e hash)) (Finite 10000)
      in num_sub x (Math_floor x))"

definition getVar :: "env \<Rightarrow> string \<Rightarrow> string \<Rightarrow> number \<Rightarrow> number" where
  "getVar e seed salt rng =
     num_sub (num_mul (num_mul (pseudoRandom e (seed @ salt)) rng) (Finite 2)) rng"

definition generateCategoryPrices :: "env \<Rightarrow> string \<Rightarrow> profile \<Rightarrow> (string \<rightharpoonup> number)" where
  "generateCategoryPrices e seed p =
     foldl (\<lambda>categoryPrices cat_id.
              if cat_id \<noteq> ''total''
              then let variation = getVar e seed cat_id (Finite 12)
                   in categoryPrices(cat_id \<mapsto>
                        Math_max (Finite 30) (Math_round (num_add (index p) variation)))
              else categoryPrices)
           Map.empty (CATEGORIES e)"

definition generateQualityOfLife :: "env \<Rightarrow> string \<Rightarrow> profile \<Rightarrow> bool \<Rightarrow> QualityOfLife" where
  "generateQualityOfLife e seed p isEU =
     \<lparr>unemploymentRate =
        \<lparr>qol_value =
           Math_max (Finite 2)
             (num_add (num_add (Finite 5) (getVar e seed ''unemp'' (Finite 4)))
                (if num_less (index p) (Finite 70) then Finite 5 else Finite 0)),
         qol_source = (if isEU then ''Eurostat'' else ''World Bank'')\<rparr>,
      lifeExpectancy =
        \<lparr>qol_value =
           Math_min (Finite 85) (Math_max (Finite 70)
             (num_add (num_add (Finite 78) (getVar e seed ''life'' (Finite 4)))
                (if num_less (Finite 100) (index p) then Finite 3 else Finite (- 2)))),
         qol_source = (if isEU then ''Eurostat'' else ''WHO'')\<rparr>,
      safetyIndex =
        \<lparr>qol_value =
           Math_min (Finite 90) (Math_max (Finite 40)
             (num_add (num_add (Finite 65) (getVar e seed ''safe'' (Finite 15)))
                (if num_less (Finite 120) (index p) then Finite 10 else Finite 0))),
         qol_source = ''Numbeo''\<rparr>,
      healthCareIndex =
        \<lparr>qol_value =
           Math_min (Finite 90) (Math_max (Finite 40)
             (num_add (num_add (Finite 68) (getVar e seed ''health'' (Finite 10)))
                (if num_less (Finite 100) (index p) then Finite 8 else Finite (- 5)))),
         qol_source = ''Numbeo''\<rparr>,
      pollutionIndex =
        \<lparr>qol_value =
           Math_min (Finite 90) (Math_max (Finite 20)
             (num_sub (num_add (Finite 40) (getVar e seed ''poll'' (Finite 15)))
                (if num_less (Finite 100) (index p) then Finite 10 else Finite (- 10)))),
         qol_source = ''Numbeo''\<rparr>,
      propertyPriceToIncomeRatio =
        \<lparr>qol_value =
           Math_max (Finite 5) (num_add (Finite 10) (getVar e seed ''prop'' (Finite 4))),
         qol_source = ''Numbeo''\<rparr>\<rparr>"

text \<open>
  The generator returns the five fields that a \<open>CountryData\<close> has beyond those of a
  \<open>SelectableCountry\<close>, in the order \<open>priceIndex\<close>, \<open>averageSalaryEUR\<close>, \<open>qualityOfLife\<close>,
  \<open>categoryPrices\<close>, \<open>metadata\<close>. The delay of 300 ms before it computes is the gap
  between the two steps of \<open>fetchCountryData\<close> below.
\<close>

definition generateSimulatedCountryData ::
  "env \<Rightarrow> SelectableCountry \<Rightarrow> unit CountryData_ext" where
  "generateSimulatedCountryData e country =
     (let p = (case map_of COUNTRY_PROFILES (code country) of
                 Some known \<Rightarrow> known | None \<Rightarrow> default_profile);
          seed = code country;
          categoryPrices = generateCategoryPrices e seed p;
          isEU = (region p = EU \<or>
                  code country \<in> set [''CH'', ''NO'', ''IS'', ''MK'', ''TR'', ''RS'', ''ME'',
                                        ''BA'', ''AL'']);
          qualityOfLife = generateQualityOfLife e seed p isEU
      in CountryData.fields
           (Some (index p))
           (salary p)
           qualityOfLife
           categoryPrices
           \<lparr>economicDataSource =
              (if isEU then ''Eurostat''
               else if code country = ''US'' then ''OECD'' else ''World Bank''),
            dataSourceUrl =
              (if isEU then Some ''https://ec.europa.eu/eurostat/data/database'' else None),
            lastUpdate = ''2024''\<rparr>)"

section \<open>The country-data cache (fetchCountryData)\<close>

text \<open>
  \<open>fetchCountryData\<close> runs in two steps with other work in between: up to the \<open>await\<close>
  (the guard, the marker in \<open>fetchingRef\<close>, the loading flag, the call of the
  generator), and from the end of the generator's delay on. What the second step keeps
  from the first is the \<open>pending\<close> request.
\<close>

record pending =
  pending_countryCode :: string
  pending_country :: SelectableCountry
  pending_monthKey :: "int \<times> nat"

definition fetchCountryData_start :: "env \<Rightarrow> AppState \<Rightarrow> string \<Rightarrow> AppState \<times> pending option" where
  "fetchCountryData_start e s countryCode =
     (if cacheRef s countryCode \<noteq> None \<or> countryCode \<in> fetchingRef s then (s, None)
      else case find (\<lambda>c. code c = countryCode) (SELECTABLE_COUNTRIES e) of
             None \<Rightarrow> (s, None)
           | Some country \<Rightarrow>
               (s\<lparr>fetchingRef := insert countryCode (fetchingRef s),
                  isLoadingData := (isLoadingData s)(countryCode \<mapsto> True),
                  dataError := (dataError s)(countryCode \<mapsto> None),
                  effects := effects s @ [GenerationStarted countryCode]\<rparr>,
                Some \<lparr>pending_countryCode = countryCode, pending_country = country,
                      pending_monthKey = currentMonthKey e\<rparr>))"

definition fullData :: "env \<Rightarrow> SelectableCountry \<Rightarrow> CountryData" where
  "fullData e country = SelectableCountry.extend country (generateSimulatedCountryData e country)"

definition fetchCountryData_finish :: "env \<Rightarrow> pending \<Rightarrow> AppState \<Rightarrow> AppState" where
  "fetchCountryData_finish e p s =
     (let countryCode = pending_countryCode p;
          s1 = (if setItem_throws e
                then s\<lparr>dataError := (dataError s)(countryCode \<mapsto> Some ''Failed to load data.'')\<rparr>
                else s\<lparr>data_store := (data_store s)(countryCode \<mapsto>
                          DataSnapshot (pending_monthKey p) (Some (fullData e (pending_country p)))),
                       countryDataCache := (countryDataCache s)(countryCode \<mapsto>
                          fullData e (pending_country p)),
                       effects := effects s @ [DataPersisted countryCode, CacheWritten countryCode]\<rparr>)
      in s1\<lparr>fetchingRef := fetchingRef s1 - {countryCode},
             isLoadingData := (isLoadingData s1)(countryCode \<mapsto> False)\<rparr>)"

text \<open>The two steps of \<open>fetchCountryData\<close> with nothing in between.\<close>

definition fetchCountryData :: "env \<Rightarrow> AppState \<Rightarrow> string \<Rightarrow> AppState" where
  "fetchCountryData e s countryCode =
     (case fetchCountryData_start e s countryCode of
        (s1, None) \<Rightarrow> s1
      | (s1, Some p) \<Rightarrow> fetchCountryData_finish e p s1)"


text \<open>
  The initial cache of a session: of the stored entries, those of the current month
  that parse and hold data.
\<close>

definition initialCache :: "env \<Rightarrow> (string \<rightharpoonup> data_entry) \<Rightarrow> (string \<rightharpoonup> CountryData)" where
  "initialCache e store =
     (\<lambda>countryCode.
        case store countryCode of
          Some (DataSnapshot monthKey (Some d)) \<Rightarrow>
            if monthKey = currentMonthKey e then Some d else None
        | _ \<Rightarrow> None)"

definition initialState :: "env \<Rightarrow> rates_entry \<Rightarrow> (string \<rightharpoonup> data_entry) \<Rightarrow> AppState" where
  "initialState e stored_rates stored_data =
     \<lparr>rates = None, ratesLastUpdated = None, isLoadingRates = True, ratesError = False,
      countryDataCache = initialCache e stored_data,
      isLoadingData = Map.empty, dataError = Map.empty,
      fetchingRef = {}, cacheRef = initialCache e stored_data,
      rates_store = stored_rates, data_store = stored_data, effects = []\<rparr>"

section \<open>Well-formed numbers\<close>

text \<open>
  A value of type \<open>number\<close> that the program can hold is a double: rounding leaves a
  finite one unchanged.
\<close>

fun is_finite :: "number \<Rightarrow> bool" where
  "is_finite (Finite a) = True"
| "is_finite _ = False"

fun is_double :: "number \<Rightarrow> bool" where
  "is_double (Finite a) = (round_to_double a = Finite a)"
| "is_double _ = True"

text \<open>A finite number between two bounds.\<close>

fun in_range :: "real \<Rightarrow> real \<Rightarrow> number \<Rightarrow> bool" where
  "in_range lo hi (Finite r) = (lo \<le> r \<and> r \<le> hi)"
| "in_range lo hi _ = False"

section \<open>Sample inputs\<close>

definition country_ES :: SelectableCountry where
  "country_ES = \<lparr>code = ''ES'', name = ''Spain'', currency = ''EUR''\<rparr>"

definition country_DE :: SelectableCountry where
  "country_DE = \<lparr>code = ''DE'', name = ''Germany'', currency = ''EUR''\<rparr>"

definition country_US :: SelectableCountry where
  "country_US = \<lparr>code = ''US'', name = ''United States'', currency = ''USD''\<rparr>"

definition country_TR :: SelectableCountry where
  "country_TR = \<lparr>code = ''TR'', name = ''Turkey'', currency = ''TRY''\<rparr>"

definition sample_qol :: QualityOfLife where
  "sample_qol =
     \<lparr>unemploymentRate = \<lparr>qol_value = Finite 5, qol_source = ''Eurostat''\<rparr>,
      lifeExpectancy = \<lparr>qol_value = Finite 80, qol_source = ''Eurostat''\<rparr>,
      safetyIndex = \<lparr>qol_value = Finite 60, qol_source = ''Numbeo''\<rparr>,
      healthCareIndex = \<lparr>qol_value = Finite 70, qol_source = ''Numbeo''\<rparr>,
      pollutionIndex = \<lparr>qol_value = Finite 40, qol_source = ''Numbeo''\<rparr>,
      propertyPriceToIncomeRatio = \<lparr>qol_value = Finite 10, qol_source = ''Numbeo''\<rparr>\<rparr>"

text \<open>Country data with a given price index and given category prices.\<close>

definition sample_data ::
  "SelectableCountry \<Rightarrow> number option \<Rightarrow> (string \<rightharpoonup> number) \<Rightarrow> CountryData" where
  "sample_data country idx prices =
     SelectableCountry.extend country
       (CountryData.fields idx (Finite 30000) sample_qol prices
          \<lparr>economicDataSource = ''Eurostat'', dataSourceUrl = None, lastUpdate = ''2024''\<rparr>)"

text \<open>
  An environment on 3 November 2026 (the month key counts months from 0) in which the
  rate service answers, with a stand-in for \<open>Math.sin\<close> whose values lie in \<open>[-1, 1]\<close>.
\<close>

definition sample_env :: env where
  "sample_env =
     \<lparr>today = ''2026-11-03'',
      currentMonthKey = (2026, 10),
      fetch_response = FetchOk [''USD'' \<mapsto> Finite (9 / 8), ''TRY'' \<mapsto> Finite 49],
      setItem_throws = False,
      Math_sin = (\<lambda>h. of_int (h mod 2049 - 1024) / 1024),
      CATEGORIES = [''total'', ''housing'', ''food''],
      SELECTABLE_COUNTRIES = [country_ES, country_DE, country_US, country_TR]\<rparr>"

text \<open>The same environment a month later, and one in which the rate service fails.\<close>

definition sample_env_december :: env where
  "sample_env_december = sample_env\<lparr>today := ''2026-12-03'', currentMonthKey := (2026, 11)\<rparr>"

definition sample_env_offline :: env where
  "sample_env_offline = sample_env\<lparr>fetch_response := FetchFailed\<rparr>"

text \<open>The first state of a session of the sample environment with an empty data store.\<close>

definition sample_state :: "rates_entry \<Rightarrow> AppState" where
  "sample_state stored_rates = initialState sample_env stored_rates Map.empty"

section \<open>Evaluation of the rounding on numerals\<close>

lemmas double_eval =
  round_to_double_def nearest_double_def quantum_def binade_def round_half_even_def
  compute_bitlen power_int_minus Let_def

section \<open>Properties of the rounding\<close>

lemma bitlen_pos_bounds:
  assumes "0 < n"
  shows "1 \<le> bitlen n"
    and "(2::real) ^ nat (bitlen n - 1) \<le> of_int n"
    and "real_of_int n + 1 \<le> 2 ^ nat (bitlen n)"
proof -
  show "1 \<le> bitlen n" using assms by (simp add: bitlen_alt_def)
  have "2 ^ nat (bitlen n - 1) \<le> n" using bitlen_bounds[OF assms] by simp
  then have "real_of_int (2 ^ nat (bitlen n - 1)) \<le> of_int n"
    by (simp only: of_int_le_iff)
  then show "(2::real) ^ nat (bitlen n - 1) \<le> of_int n" by simp
  have "n + 1 \<le> 2 ^ nat (bitlen n)" using bitlen_bounds[OF assms] by simp
  then have "real_of_int (n + 1) \<le> of_int (2 ^ nat (bitlen n))"
    by (simp only: of_int_le_iff)
  then show "real_of_int n + 1 \<le> 2 ^ nat (bitlen n)" by simp
qed

lemma binade_lower:
  assumes "x \<noteq> 0"
  shows "2 powi binade x \<le> \<bar>x\<bar>"
proof (cases "1 \<le> \<bar>x\<bar>")
  case True
  define n where "n = \<lfloor>\<bar>x\<bar>\<rfloor>"
  have n: "0 < n" using True by (simp add: n_def)
  have b: "binade x = bitlen n - 1" using True by (simp add: binade_def n_def)
  have "(2::real) powi binade x = 2 ^ nat (bitlen n - 1)"
    using bitlen_pos_bounds(1)[OF n] by (simp add: b power_int_def)
  also have "\<dots> \<le> of_int n" by (rule bitlen_pos_bounds(2)[OF n])
  also have "\<dots> \<le> \<bar>x\<bar>" by (simp add: n_def)
  finally show ?thesis .
next
  case False
  define m where "m = \<lceil>1 / \<bar>x\<bar>\<rceil> - 1"
  have "1 < 1 / \<bar>x\<bar>" using False assms by simp
  then have m: "0 < m" unfolding m_def by simp
  have b: "binade x = - bitlen m" using False by (simp add: binade_def m_def)
  have k: "1 \<le> bitlen m" by (rule bitlen_pos_bounds(1)[OF m])
  have "1 / \<bar>x\<bar> \<le> of_int m + 1" unfolding m_def by simp
  also have "\<dots> \<le> 2 ^ nat (bitlen m)" by (rule bitlen_pos_bounds(3)[OF m])
  finally have "1 / \<bar>x\<bar> \<le> 2 ^ nat (bitlen m)" .
  then have "1 / 2 ^ nat (bitlen m) \<le> \<bar>x\<bar>" using assms
    by (simp add: field_simps)
  moreover have "(2::real) powi binade x = 1 / 2 ^ nat (bitlen m)"
    using k by (simp add: b power_int_def field_simps) 
  ultimately show ?thesis by simp
qed

lemma binade_upper:
  assumes "x \<noteq> 0"
  shows "\<bar>x\<bar> < 2 powi (binade x + 1)"
proof (cases "1 \<le> \<bar>x\<bar>")
  case True
  define n where "n = \<lfloor>\<bar>x\<bar>\<rfloor>"
  have n: "0 < n" using True by (simp add: n_def)
  have b: "binade x = bitlen n - 1" using True by (simp add: binade_def n_def)
  have k: "1 \<le> bitlen n" by (rule bitlen_pos_bounds(1)[OF n])
  have "\<bar>x\<bar> < of_int n + 1" unfolding n_def by linarith
  also have "\<dots> \<le> 2 ^ nat (bitlen n)" by (rule bitlen_pos_bounds(3)[OF n])
  also have "\<dots> = 2 powi (binade x + 1)"
    using k by (simp add: b power_int_def)
  finally show ?thesis .
next
  case False
  define m where "m = \<lceil>1 / \<bar>x\<bar>\<rceil> - 1"
  have "1 < 1 / \<bar>x\<bar>" using False assms by simp
  then have m: "0 < m" unfolding m_def by simp
  have b: "binade x = - bitlen m" using False by (simp add: binade_def m_def)
  have k: "1 \<le> bitlen m" by (rule bitlen_pos_bounds(1)[OF m])
  have "(2::real) ^ nat (bitlen m - 1) \<le> of_int m" by (rule bitlen_pos_bounds(2)[OF m])
  also have "\<dots> < 1 / \<bar>x\<bar>" unfolding m_def by linarith
  finally have "2 ^ nat (bitlen m - 1) < 1 / \<bar>x\<bar>" .
  then have "\<bar>x\<bar> < 1 / 2 ^ nat (bitlen m - 1)" using assms
    by (simp add: field_simps)
  moreover have "(2::real) powi (binade x + 1) = 1 / 2 ^ nat (bitlen m - 1)"
    using k by (cases "bitlen m = 1") (simp_all add: b power_int_def field_simps)
  ultimately show ?thesis by simp
qed

lemma rhe_of_int: "round_half_even (of_int n) = n"
  by (simp add: round_half_even_def)

lemma rhe_floor_le: "\<lfloor>x\<rfloor> \<le> round_half_even x"
  by (simp add: round_half_even_def Let_def)

lemma rhe_le_floor: "round_half_even x \<le> \<lfloor>x\<rfloor> + 1"
  by (simp add: round_half_even_def Let_def)

lemma rhe_mono:
  assumes "x \<le> y"
  shows "round_half_even x \<le> round_half_even y"
proof (cases "\<lfloor>x\<rfloor> = \<lfloor>y\<rfloor>")
  case True
  then show ?thesis using assms by (auto simp: round_half_even_def Let_def)
next
  case False
  moreover have "\<lfloor>x\<rfloor> \<le> \<lfloor>y\<rfloor>" using assms by (rule floor_mono)
  ultimately have "\<lfloor>x\<rfloor> + 1 \<le> \<lfloor>y\<rfloor>" by simp
  then show ?thesis using rhe_le_floor[of x] rhe_floor_le[of y] by linarith
qed

lemma rhe_neg: "round_half_even (- y) = - round_half_even y"
proof (cases "y = of_int \<lfloor>y\<rfloor>")
  case True
  then obtain n where "y = of_int n" ..
  then have "- y = of_int (- n)" by simp
  then show ?thesis using \<open>y = of_int n\<close> rhe_of_int by metis
next
  case False
  then have c: "\<lceil>y\<rceil> = \<lfloor>y\<rfloor> + 1" by (simp add: ceiling_altdef)
  have f: "\<lfloor>- y\<rfloor> = - \<lfloor>y\<rfloor> - 1" using c by (simp add: floor_minus)
  show ?thesis
    unfolding round_half_even_def Let_def f
    by auto
qed

lemma quantum_pos: "0 < quantum x"
  by (simp add: quantum_def)

lemma quantum_minus: "quantum (- x) = quantum x"
  by (simp add: quantum_def binade_def)

lemma nearest_double_minus: "nearest_double (- x) = - nearest_double x"
  by (simp add: nearest_double_def quantum_minus rhe_neg)

lemma binade_mono:
  assumes "x \<noteq> 0" and "\<bar>x\<bar> \<le> \<bar>y\<bar>"
  shows "binade x \<le> binade y"
proof (rule ccontr)
  assume "\<not> binade x \<le> binade y"
  then have lt: "binade y + 1 \<le> binade x" by simp
  have y: "y \<noteq> 0" using assms by auto
  have "\<bar>y\<bar> < 2 powi (binade y + 1)" by (rule binade_upper[OF y])
  also have "\<dots> \<le> 2 powi binade x" using lt by (simp add: power_int_increasing)
  also have "\<dots> \<le> \<bar>x\<bar>" by (rule binade_lower[OF assms(1)])
  finally show False using assms(2) by simp
qed

lemma pow_split_52: "(2::real) powi e = 2 ^ 52 * 2 powi (e - 52)"
proof -
  have "e = 52 + (e - 52)" by simp
  then have "(2::real) powi e = 2 powi (52 + (e - 52))" by (rule arg_cong)
  also have "\<dots> = 2 powi 52 * 2 powi (e - 52)" by (subst power_int_add) simp_all
  finally show ?thesis by simp
qed

lemma pow_split_53: "(2::real) powi (e + 1) = 2 ^ 53 * 2 powi (e - 52)"
proof -
  have "e + 1 = 53 + (e - 52)" by simp
  then have "(2::real) powi (e + 1) = 2 powi (53 + (e - 52))" by (rule arg_cong)
  also have "\<dots> = 2 powi 53 * 2 powi (e - 52)" by (subst power_int_add) simp_all
  finally show ?thesis by simp
qed

text \<open>The result lies in the closed binade of the argument.\<close>

lemma nearest_double_upper:
  assumes "0 < x"
  shows "nearest_double x \<le> 2 powi (max (binade x) (- 1022) + 1)"
proof -
  define E where "E = max (binade x) (- 1022)"
  have q: "quantum x = 2 powi (E - 52)" by (simp add: quantum_def E_def)
  have "x < 2 powi (binade x + 1)" using binade_upper[of x] assms by simp
  also have "\<dots> \<le> 2 powi (E + 1)" by (simp add: E_def power_int_increasing)
  also have "\<dots> = 2 ^ 53 * quantum x" unfolding q by (rule pow_split_53)
  finally have "x / quantum x \<le> 2 ^ 53" using quantum_pos[of x] by (simp add: field_simps)
  then have "round_half_even (x / quantum x) \<le> round_half_even (of_int (2 ^ 53))"
    by (intro rhe_mono) simp
  then have "round_half_even (x / quantum x) \<le> 2 ^ 53" by (simp only: rhe_of_int)
  then have "real_of_int (round_half_even (x / quantum x)) \<le> 2 ^ 53"
    by (metis of_int_le_iff of_int_numeral of_int_power)
  then have "of_int (round_half_even (x / quantum x)) * quantum x \<le> 2 ^ 53 * quantum x"
    using quantum_pos[of x] by (simp only: mult_le_cancel_right_pos)
  moreover have "2 ^ 53 * quantum x = 2 powi (E + 1)" unfolding q by (rule pow_split_53[symmetric])
  ultimately show ?thesis using assms by (simp add: nearest_double_def E_def)
qed

lemma nearest_double_lower:
  assumes "0 < x" and "- 1022 \<le> binade x"
  shows "2 powi binade x \<le> nearest_double x"
proof -
  have q: "quantum x = 2 powi (binade x - 52)" using assms by (simp add: quantum_def)
  have qq: "2 ^ 52 * quantum x = 2 powi binade x" unfolding q by (rule pow_split_52[symmetric])
  note qq
  also have "\<dots> \<le> x" using binade_lower[of x] assms by simp
  finally have "2 ^ 52 \<le> x / quantum x" using quantum_pos[of x] by (simp add: field_simps)
  then have "round_half_even (of_int (2 ^ 52)) \<le> round_half_even (x / quantum x)"
    by (intro rhe_mono) simp
  then have "2 ^ 52 \<le> round_half_even (x / quantum x)" by (simp only: rhe_of_int)
  then have "2 ^ 52 \<le> real_of_int (round_half_even (x / quantum x))"
    by (metis of_int_le_iff of_int_numeral of_int_power)
  then have "2 ^ 52 * quantum x \<le> of_int (round_half_even (x / quantum x)) * quantum x"
    using quantum_pos[of x] by (simp only: mult_le_cancel_right_pos)
  then show ?thesis using assms qq by (simp add: nearest_double_def)
qed

lemma nearest_double_mono_pos:
  assumes "0 < x" and "x \<le> y"
  shows "nearest_double x \<le> nearest_double y"
proof -
  define Ex where "Ex = max (binade x) (- 1022)"
  define Ey where "Ey = max (binade y) (- 1022)"
  have y: "0 < y" using assms by simp
  have "binade x \<le> binade y" using assms by (intro binade_mono) auto
  then have le: "Ex \<le> Ey" by (simp add: Ex_def Ey_def)
  show ?thesis
  proof (cases "Ex = Ey")
    case True
    then have q: "quantum x = quantum y" by (simp add: quantum_def Ex_def Ey_def)
    have "x / quantum y \<le> y / quantum y"
      using assms quantum_pos[of y] by (simp add: divide_right_mono)
    then have "round_half_even (x / quantum y) \<le> round_half_even (y / quantum y)"
      by (rule rhe_mono)
    then have "real_of_int (round_half_even (x / quantum y)) * quantum y
               \<le> real_of_int (round_half_even (y / quantum y)) * quantum y"
      using quantum_pos[of y] by (simp only: mult_le_cancel_right_pos of_int_le_iff)
    then show ?thesis using assms y by (simp add: nearest_double_def q)
  next
    case False
    with le have lt: "Ex + 1 \<le> Ey" by simp
    then have b: "- 1022 \<le> binade y" and ey: "Ey = binade y" by (auto simp: Ey_def Ex_def)
    have "nearest_double x \<le> 2 powi (Ex + 1)"
      unfolding Ex_def by (rule nearest_double_upper[OF assms(1)])
    also have "\<dots> \<le> 2 powi Ey" using lt by (simp add: power_int_increasing)
    also have "\<dots> \<le> nearest_double y" unfolding ey by (rule nearest_double_lower[OF y b])
    finally show ?thesis .
  qed
qed

lemma nearest_double_nonneg:
  assumes "0 \<le> x"
  shows "0 \<le> nearest_double x"
proof -
  have "0 \<le> x / quantum x" using assms quantum_pos[of x] by simp
  then have "round_half_even (of_int 0) \<le> round_half_even (x / quantum x)"
    by (intro rhe_mono) simp
  then have "0 \<le> round_half_even (x / quantum x)" by (simp only: rhe_of_int)
  then show ?thesis using quantum_pos[of x] by (simp add: nearest_double_def)
qed

lemma nearest_double_mono:
  assumes "x \<le> y"
  shows "nearest_double x \<le> nearest_double y"
proof -
  consider "0 < x" | "x \<le> 0" "0 \<le> y" | "y < 0" by linarith
  then show ?thesis
  proof cases
    case 1
    then show ?thesis using assms by (rule nearest_double_mono_pos)
  next
    case 2
    have "0 \<le> nearest_double (- x)" using 2 by (intro nearest_double_nonneg) simp
    then have "nearest_double x \<le> 0" by (simp add: nearest_double_minus)
    also have "0 \<le> nearest_double y" using 2 by (intro nearest_double_nonneg)
    finally show ?thesis .
  next
    case 3
    have "nearest_double (- y) \<le> nearest_double (- x)"
      using 3 assms by (intro nearest_double_mono_pos) simp_all
    then show ?thesis by (simp add: nearest_double_minus)
  qed
qed

lemma pow2_less_imp: 
  assumes "(2::real) powi a < 2 powi b"
  shows "a < b"
proof (rule ccontr)
  assume "\<not> a < b"
  then have "(2::real) powi b \<le> 2 powi a" by (simp add: power_int_increasing)
  with assms show False by simp
qed

lemma binade_le:
  assumes "y \<noteq> 0" and "\<bar>y\<bar> < 2 powi (k + 1)"
  shows "binade y \<le> k"
proof -
  have "2 powi binade y \<le> \<bar>y\<bar>" by (rule binade_lower[OF assms(1)])
  also note assms(2)
  finally have "binade y < k + 1" by (rule pow2_less_imp)
  then show ?thesis by simp
qed

lemma binade_ge:
  assumes "y \<noteq> 0" and "2 powi k \<le> \<bar>y\<bar>"
  shows "k \<le> binade y"
proof -
  note assms(2)
  also have "\<bar>y\<bar> < 2 powi (binade y + 1)" by (rule binade_upper[OF assms(1)])
  finally have "k < binade y + 1" by (rule pow2_less_imp)
  then show ?thesis by simp
qed

lemma nearest_double_fixed:
  assumes "y = of_int k * quantum y"
  shows "nearest_double y = y"
proof -
  have "y / quantum y = of_int k" using assms quantum_pos[of y]
    by (metis less_numeral_extra(3) nonzero_mult_div_cancel_right)
  then show ?thesis using assms by (simp add: nearest_double_def rhe_of_int)
qed

lemma nearest_double_idem_pos:
  assumes "0 < x"
  shows "nearest_double (nearest_double x) = nearest_double x"
proof -
  define E where "E = max (binade x) (- 1022)"
  define m where "m = round_half_even (x / quantum x)"
  define y where "y = nearest_double x"
  have q: "quantum x = 2 powi (E - 52)" by (simp add: quantum_def E_def)
  have y: "y = of_int m * quantum x" using assms by (simp add: y_def m_def nearest_double_def)
  have y0: "0 \<le> y" unfolding y_def using assms by (intro nearest_double_nonneg) simp
  have up: "y \<le> 2 powi (E + 1)" unfolding y_def E_def by (rule nearest_double_upper[OF assms])
  show ?thesis
  proof (cases "y = 0")
    case True
    then have "nearest_double y = y" by (simp add: nearest_double_def)
    then show ?thesis by (simp only: y_def)
  next
    case False
    with y0 have ypos: "0 < y" by simp
    show ?thesis
    proof (cases "y = 2 powi (E + 1)")
      case True
      then have "binade y = E + 1"
        using binade_le[of y "E + 1"] binade_ge[of y "E + 1"] ypos binade_upper[of y] binade_lower[of y]
        by (simp add: power_int_strict_increasing)
      moreover have "- 1022 \<le> E" by (simp add: E_def)
      ultimately have "quantum y = 2 powi (E + 1 - 52)" by (simp add: quantum_def)
      then have "y = of_int (2 ^ 52) * quantum y"
        using True pow_split_52[of "E + 1"] by simp
      then have "nearest_double y = y" by (rule nearest_double_fixed)
      then show ?thesis by (simp only: y_def)
    next
      case c: False
      with up have lt: "y < 2 powi (E + 1)" by simp
      have "binade y \<le> E" using binade_le[of y E] ypos lt by simp
      moreover have "binade x \<le> binade y" if "- 1022 \<le> binade x"
      proof -
        have "2 powi binade x \<le> y" unfolding y_def by (rule nearest_double_lower[OF assms that])
        then show ?thesis using binade_ge[of y "binade x"] ypos by simp
      qed
      ultimately have "max (binade y) (- 1022) = E" unfolding E_def by linarith
      then have "quantum y = quantum x" by (simp add: quantum_def E_def)
      then have "y = of_int m * quantum y" using y by simp
      then have "nearest_double y = y" by (rule nearest_double_fixed)
      then show ?thesis by (simp only: y_def)
    qed
  qed
qed

lemma nearest_double_idem: "nearest_double (nearest_double x) = nearest_double x"
proof -
  consider "0 < x" | "x = 0" | "x < 0" by linarith
  then show ?thesis
  proof cases
    case 1 then show ?thesis by (rule nearest_double_idem_pos)
  next
    case 2 then show ?thesis by (simp add: nearest_double_def)
  next
    case 3
    then have "nearest_double (nearest_double (- x)) = nearest_double (- x)"
      by (intro nearest_double_idem_pos) simp
    then show ?thesis by (simp add: nearest_double_minus)
  qed
qed

text \<open>The result is within half a quantum of the argument.\<close>

lemma rhe_error: "\<bar>real_of_int (round_half_even y) - y\<bar> \<le> 1 / 2"
  unfolding round_half_even_def Let_def by (auto; linarith)

lemma nearest_double_error: "\<bar>nearest_double x - x\<bar> \<le> quantum x / 2"
proof (cases "x = 0")
  case True
  then show ?thesis using quantum_pos[of x] by (simp add: nearest_double_def)
next
  case False
  let ?q = "quantum x"
  have q: "0 < ?q" by (rule quantum_pos)
  have "nearest_double x - x = (real_of_int (round_half_even (x / ?q)) - x / ?q) * ?q"
    using False q by (simp add: nearest_double_def field_simps)
  then have "\<bar>nearest_double x - x\<bar> = \<bar>real_of_int (round_half_even (x / ?q)) - x / ?q\<bar> * ?q"
    using q by (simp add: abs_mult)
  also have "\<dots> \<le> (1 / 2) * ?q"
    using rhe_error[of "x / ?q"] q by (intro mult_right_mono) simp_all
  finally show ?thesis by simp
qed

lemma quantum_normal:
  assumes "2 powi (- 1022) \<le> \<bar>x\<bar>"
  shows "quantum x \<le> \<bar>x\<bar> * 2 powi (- 52)"
proof -
  have x: "x \<noteq> 0" using assms zero_less_power_int[of "2::real" "- 1022"] by auto
  have b: "- 1022 \<le> binade x" using x assms by (rule binade_ge)
  then have "quantum x = 2 powi (binade x + (- 52))" by (simp add: quantum_def)
  also have "\<dots> = 2 powi binade x * 2 powi (- 52)" by (subst power_int_add) simp_all
  also have "\<dots> \<le> \<bar>x\<bar> * 2 powi (- 52)"
    using binade_lower[OF x] by (intro mult_right_mono) simp_all
  finally show ?thesis .
qed

lemma nearest_double_relative_error:
  assumes "2 powi (- 1022) \<le> \<bar>x\<bar>"
  shows "\<bar>nearest_double x - x\<bar> \<le> \<bar>x\<bar> * 2 powi (- 53)"
proof -
  have "\<bar>nearest_double x - x\<bar> \<le> quantum x / 2" by (rule nearest_double_error)
  also have "\<dots> \<le> (\<bar>x\<bar> * 2 powi (- 52)) / 2"
    using quantum_normal[OF assms] by simp
  also have "\<dots> = \<bar>x\<bar> * 2 powi (- 53)"
    by (simp add: power_int_minus)
  finally show ?thesis .
qed

section \<open>Arithmetic on doubles\<close>

lemma round_to_double_between:
  assumes "a \<le> x" and "x \<le> b"
    and "nearest_double a = a" and "nearest_double b = b"
    and "- (2 ^ 1024) < a" and "b < 2 ^ 1024"
  shows "in_range a b (round_to_double x)"
proof -
  have "nearest_double a \<le> nearest_double x" using assms(1) by (rule nearest_double_mono)
  moreover have "nearest_double x \<le> nearest_double b" using assms(2) by (rule nearest_double_mono)
  ultimately show ?thesis using assms(3-6) by (simp add: round_to_double_def Let_def)
qed

lemma is_double_round: "is_double (round_to_double x)"
  by (simp add: round_to_double_def Let_def nearest_double_idem)

lemma round_to_double_0: "round_to_double 0 = Finite 0"
  by (simp add: round_to_double_def nearest_double_def)

lemma is_double_num_div: "is_double (num_div a b)"
  by (cases a; cases b) (simp_all add: is_double_round round_to_double_0)

lemma num_mul_one: "is_double x \<Longrightarrow> num_mul x (Finite 1) = x"
  by (cases x) simp_all

lemma num_div_one: "is_double x \<Longrightarrow> num_div x (Finite 1) = x"
  by (cases x) simp_all

lemma round_to_double_1: "round_to_double 1 = Finite 1"
  by (simp add: double_eval)

lemma num_div_self: "i \<noteq> 0 \<Longrightarrow> num_div (Finite i) (Finite i) = Finite 1"
  by (simp add: round_to_double_1)

text \<open>Dividing by a rate and multiplying by it again, in the normal range.\<close>

lemma round_to_double_Finite:
  "round_to_double x = Finite t \<Longrightarrow> t = nearest_double x"
  by (auto simp: round_to_double_def Let_def split: if_splits)

lemma round_trip_error:
  assumes "r \<noteq> 0" and "2 powi (- 1021) \<le> \<bar>s\<bar>" and "2 powi (- 1022) \<le> \<bar>s / r\<bar>"
    and "num_mul (num_div (Finite s) (Finite r)) (Finite r) = Finite t"
  shows "\<bar>t - s\<bar> \<le> \<bar>s\<bar> * 2 powi (- 51)"
proof -
  define u :: real where "u = 2 powi (- 53)"
  have u: "0 < u" "u \<le> 1 / 2" "4 * u = 2 powi (- 51)"
    by (simp_all add: u_def power_int_minus)
  obtain d where d: "round_to_double (s / r) = Finite d"
    using assms(1,4) by (cases "round_to_double (s / r)") (auto split: if_splits)
  have dd: "d = nearest_double (s / r)" using d by (rule round_to_double_Finite)
  have t: "t = nearest_double (d * r)"
    using assms(1,4) d by (simp add: round_to_double_Finite)
  have "\<bar>d - s / r\<bar> \<le> \<bar>s / r\<bar> * u"
    unfolding dd u_def by (rule nearest_double_relative_error[OF assms(3)])
  then have "\<bar>d - s / r\<bar> * \<bar>r\<bar> \<le> \<bar>s / r\<bar> * u * \<bar>r\<bar>"
    by (intro mult_right_mono) simp_all
  moreover have "\<bar>d - s / r\<bar> * \<bar>r\<bar> = \<bar>d * r - s\<bar>"
    using assms(1) by (simp add: abs_mult[symmetric] field_simps)
  moreover have "\<bar>s / r\<bar> * u * \<bar>r\<bar> = \<bar>s\<bar> * u"
    using assms(1) by simp
  ultimately have e1: "\<bar>d * r - s\<bar> \<le> \<bar>s\<bar> * u" by simp
  have "\<bar>s\<bar> * u \<le> \<bar>s\<bar> * (1 / 2)" using u by (intro mult_left_mono) simp_all
  with e1 have half: "\<bar>d * r - s\<bar> \<le> \<bar>s\<bar> / 2" by simp
  then have lo: "\<bar>s\<bar> / 2 \<le> \<bar>d * r\<bar>" and hi: "\<bar>d * r\<bar> \<le> 2 * \<bar>s\<bar>" by linarith+
  have "(2::real) powi (- 1022) = 2 powi (- 1021) / 2" by (simp add: power_int_minus)
  also have "\<dots> \<le> \<bar>s\<bar> / 2" using assms(2) by simp
  also note lo
  finally have n: "2 powi (- 1022) \<le> \<bar>d * r\<bar>" .
  have "\<bar>t - d * r\<bar> \<le> \<bar>d * r\<bar> * u"
    unfolding t u_def by (rule nearest_double_relative_error[OF n])
  also have "\<dots> \<le> (2 * \<bar>s\<bar>) * u" using hi u by (intro mult_right_mono) simp_all
  finally have e2: "\<bar>t - d * r\<bar> \<le> 2 * \<bar>s\<bar> * u" .
  have "\<bar>t - s\<bar> \<le> \<bar>t - d * r\<bar> + \<bar>d * r - s\<bar>" by linarith
  also have "\<dots> \<le> 2 * \<bar>s\<bar> * u + \<bar>s\<bar> * u" using e1 e2 by linarith
  also have "\<dots> \<le> \<bar>s\<bar> * (4 * u)" using u by (simp add: algebra_simps)
  finally show ?thesis by (simp only: u)
qed

lemmas sample_simps =
  sample_data_def country_ES_def country_DE_def country_US_def country_TR_def
  SelectableCountry.defs CountryData.defs

section \<open>The equivalent salary\<close>

text \<open>
  Claim C1. For a positive salary \<open>S\<close>, both countries' data loaded with truthy (nonzero)
  price indices, a rates map, and from- and to-rates that are available (the code's test
  \<open>!rate\<close> fails: the rate is defined and nonzero), the computation returns
  \<open>(S / fromRate) * (toIndex / fromIndex)\<close> as the amount in the reference currency and
  that amount times \<open>toRate\<close> as the amount in the target currency, where the rate of EUR
  is 1 whatever the map holds. In particular, for the salary 50000 and the indices 90 and
  105, it returns \<open>(50000 / rateA) * (105 / 90)\<close> and that value times \<open>rateB\<close>.
\<close>

theorem equivalentSalary_formula:
  assumes "num_less (Finite 0) S"
    and "priceIndex fd = Some fromIndex" and "truthy fromIndex"
    and "priceIndex td = Some toIndex" and "truthy toIndex"
    and "rate_of r (currency fromCountry) = Some fromRate" and "truthy fromRate"
    and "rate_of r (currency toCountry) = Some toRate" and "truthy toRate"
  shows "computeEquivalentSalary S (Some fd) (Some td) (Some r) fromCountry toCountry =
           \<lparr>equivalentSalary =
              num_mul (num_mul (num_div S fromRate) (num_div toIndex fromIndex)) toRate,
            equivalentSalaryInEUR =
              num_mul (num_div S fromRate) (num_div toIndex fromIndex)\<rparr>
         \<and> rate_of r ''EUR'' = Some (Finite 1)
         \<and> (S = Finite 50000 \<and> fromIndex = Finite 90 \<and> toIndex = Finite 105 \<longrightarrow>
              equivalentSalaryInEUR
                (computeEquivalentSalary S (Some fd) (Some td) (Some r) fromCountry toCountry) =
                num_mul (num_div (Finite 50000) fromRate) (num_div (Finite 105) (Finite 90))
            \<and> equivalentSalary
                (computeEquivalentSalary S (Some fd) (Some td) (Some r) fromCountry toCountry) =
                num_mul
                  (num_mul (num_div (Finite 50000) fromRate) (num_div (Finite 105) (Finite 90)))
                  toRate)"
proof -
  have pos: "truthy S"
    using assms(1) by (cases S) auto
  have main: "computeEquivalentSalary S (Some fd) (Some td) (Some r) fromCountry toCountry =
           \<lparr>equivalentSalary =
              num_mul (num_mul (num_div S fromRate) (num_div toIndex fromIndex)) toRate,
            equivalentSalaryInEUR =
              num_mul (num_div S fromRate) (num_div toIndex fromIndex)\<rparr>"
    using assms pos by (simp add: computeEquivalentSalary_def Let_def)
  have eur: "rate_of r ''EUR'' = Some (Finite 1)"
    by (simp add: rate_of_def)
  have inst: "S = Finite 50000 \<and> fromIndex = Finite 90 \<and> toIndex = Finite 105 \<longrightarrow>
      equivalentSalaryInEUR
        (computeEquivalentSalary S (Some fd) (Some td) (Some r) fromCountry toCountry) =
        num_mul (num_div (Finite 50000) fromRate) (num_div (Finite 105) (Finite 90))
      \<and> equivalentSalary
        (computeEquivalentSalary S (Some fd) (Some td) (Some r) fromCountry toCountry) =
        num_mul
          (num_mul (num_div (Finite 50000) fromRate) (num_div (Finite 105) (Finite 90)))
          toRate"
    unfolding main EquivalentSalary.select_convs
    by (intro impI, elim conjE, hypsubst, intro conjI refl)
  from main eur inst show ?thesis by (intro conjI)
qed

theorem equivalentSalary_formula_witness:
  "computeEquivalentSalary (Finite 50000)
     (Some (sample_data country_ES (Some (Finite 90)) Map.empty))
     (Some (sample_data country_US (Some (Finite 105)) Map.empty))
     (Some [''USD'' \<mapsto> Finite (9 / 8)]) country_ES country_US =
   \<lparr>equivalentSalary = Finite 65625,
    equivalentSalaryInEUR = Finite (8017272285866667 / 137438953472)\<rparr>"
proof -
  have "computeEquivalentSalary (Finite 50000)
     (Some (sample_data country_ES (Some (Finite 90)) Map.empty))
     (Some (sample_data country_US (Some (Finite 105)) Map.empty))
     (Some [''USD'' \<mapsto> Finite (9 / 8)]) country_ES country_US =
     \<lparr>equivalentSalary =
        num_mul (num_mul (num_div (Finite 50000) (Finite 1)) (num_div (Finite 105) (Finite 90)))
          (Finite (9 / 8)),
      equivalentSalaryInEUR =
        num_mul (num_div (Finite 50000) (Finite 1)) (num_div (Finite 105) (Finite 90))\<rparr>"
    using equivalentSalary_formula[of "Finite 50000"
        "sample_data country_ES (Some (Finite 90)) Map.empty" "Finite 90"
        "sample_data country_US (Some (Finite 105)) Map.empty" "Finite 105"
        "[''USD'' \<mapsto> Finite (9 / 8)]" country_ES "Finite 1" country_US "Finite (9 / 8)"]
    by (simp add: sample_simps rate_of_def)
  also have "\<dots> = \<lparr>equivalentSalary = Finite 65625,
    equivalentSalaryInEUR = Finite (8017272285866667 / 137438953472)\<rparr>"
    by (simp add: double_eval)
  finally show ?thesis .
qed

lemma handleSalaryChange_initial: "handleSalaryChange ''50000'' = ''50000''"
  by (simp add: handleSalaryChange_def)

lemma handleSalaryChange_idem:
  "handleSalaryChange (handleSalaryChange input_value) = handleSalaryChange input_value"
  by (simp add: handleSalaryChange_def)

lemma parseFloat_initial: "parseFloat_digits ''50000'' = Finite 50000"
  by (simp add: parseFloat_digits_def decimal_value_def double_eval)

lemma parseFloat_digits_nonpositive:
  assumes "\<not> num_less (Finite 0) (parseFloat_digits digits)"
  shows "\<not> truthy (parseFloat_digits digits)"
proof (cases "digits = []")
  case True
  then show ?thesis by (simp add: parseFloat_digits_def)
next
  case False
  let ?x = "real (decimal_value digits)"
  have "0 \<le> nearest_double ?x" by (rule nearest_double_nonneg) simp
  then show ?thesis
    using assms False
    by (auto simp: parseFloat_digits_def round_to_double_def Let_def split: if_splits)
qed

lemma zero_salary_zero_result:
  assumes "\<not> truthy parsedSalary"
    and "priceIndex fd = Some fromIndex" and "priceIndex td = Some toIndex"
    and "is_finite (num_div toIndex fromIndex)"
    and "rate_of r (currency toCountry) = Some toRate" and "is_finite toRate"
  shows "computeEquivalentSalary parsedSalary (Some fd) (Some td) (Some r)
        fromCountry toCountry = zero_result"
proof -
  obtain q where q: "num_div toIndex fromIndex = Finite q"
    using assms(4) by (cases "num_div toIndex fromIndex") auto
  obtain t where t: "toRate = Finite t" using assms(6) by (cases toRate) auto
  have z: "truthy fromRate \<Longrightarrow> num_div (Finite 0) fromRate = Finite 0" for fromRate
    by (cases fromRate) (simp_all add: round_to_double_0)
  show ?thesis
    using assms(1,2,3,5) q t z
    by (auto simp: computeEquivalentSalary_def Let_def zero_result_def round_to_double_0
        split: option.splits)
qed

text \<open>
  Claim C2, as the code has it. The computation returns the zero result, which is
  finite, whenever the data of either country is not loaded or its price index is
  missing, zero or \<open>NaN\<close>, and whenever there is no rates map or either currency has no
  rate in it (or a zero or \<open>NaN\<close> one). When the numeric salary is not positive (the
  salary state holds digits only, so \<open>parseFloat\<close> gave 0 or \<open>NaN\<close>) it returns the zero
  result provided the ratio of the indices and the rate of the target currency are
  finite. With an infinite rate the product of 0 and the rate is \<open>NaN\<close>: the
  counterexample below is the salary \<open>'0'\<close> at an infinite rate.
\<close>

theorem zero_sentinel:
  "(index_unusable fromCountryData \<or> index_unusable toCountryData \<or>
    rate_unavailable rts fromCountry \<or> rate_unavailable rts toCountry \<longrightarrow>
      computeEquivalentSalary parsedSalary fromCountryData toCountryData rts
        fromCountry toCountry = zero_result)
   \<and> (\<not> num_less (Finite 0) (parseFloat_digits (handleSalaryChange input_value)) \<and>
        priceIndex fd = Some fromIndex \<and> priceIndex td = Some toIndex \<and>
        is_finite (num_div toIndex fromIndex) \<and>
        rate_of r (currency toCountry) = Some toRate \<and> is_finite toRate \<longrightarrow>
      computeEquivalentSalary (parseFloat_digits (handleSalaryChange input_value))
        (Some fd) (Some td) (Some r) fromCountry toCountry = zero_result)
   \<and> is_finite (equivalentSalary zero_result)
   \<and> is_finite (equivalentSalaryInEUR zero_result)"
proof (intro conjI impI)
  assume "index_unusable fromCountryData \<or> index_unusable toCountryData \<or>
    rate_unavailable rts fromCountry \<or> rate_unavailable rts toCountry"
  then show "computeEquivalentSalary parsedSalary fromCountryData toCountryData rts
        fromCountry toCountry = zero_result"
    by (auto simp: computeEquivalentSalary_def index_unusable_def rate_unavailable_def Let_def
        split: option.splits)
next
  assume a: "\<not> num_less (Finite 0) (parseFloat_digits (handleSalaryChange input_value)) \<and>
        priceIndex fd = Some fromIndex \<and> priceIndex td = Some toIndex \<and>
        is_finite (num_div toIndex fromIndex) \<and>
        rate_of r (currency toCountry) = Some toRate \<and> is_finite toRate"
  then have "\<not> truthy (parseFloat_digits (handleSalaryChange input_value))"
    by (intro parseFloat_digits_nonpositive) (elim conjE)
  with a show "computeEquivalentSalary (parseFloat_digits (handleSalaryChange input_value))
        (Some fd) (Some td) (Some r) fromCountry toCountry = zero_result"
    by (blast intro: zero_salary_zero_result)
qed (simp_all add: zero_result_def)

theorem zero_sentinel_witness:
  "computeEquivalentSalary (Finite 50000)
     (Some (sample_data country_ES (Some (Finite 0)) Map.empty))
     (Some (sample_data country_US (Some (Finite 105)) Map.empty))
     (Some [''USD'' \<mapsto> Finite (9 / 8)]) country_ES country_US = zero_result
   \<and> computeEquivalentSalary (Finite 50000)
     (Some (sample_data country_ES (Some (Finite 90)) Map.empty))
     (Some (sample_data country_US (Some (Finite 105)) Map.empty))
     (Some Map.empty) country_ES country_US = zero_result
   \<and> handleSalaryChange ''-0'' = ''0''
   \<and> parseFloat_digits (handleSalaryChange ''-0'') = Finite 0
   \<and> computeEquivalentSalary (parseFloat_digits (handleSalaryChange ''-0''))
     (Some (sample_data country_ES (Some (Finite 90)) Map.empty))
     (Some (sample_data country_US (Some (Finite 105)) Map.empty))
     (Some [''USD'' \<mapsto> Finite (9 / 8)]) country_ES country_US = zero_result"
proof -
  have i: "index_unusable (Some (sample_data country_ES (Some (Finite 0)) Map.empty))"
    by (simp add: index_unusable_def sample_simps)
  have r: "rate_unavailable (Some Map.empty) country_US"
    by (simp add: rate_unavailable_def rate_of_def sample_simps)
  have f: "is_finite (num_div (Finite 105) (Finite 90))"
    by (simp add: double_eval)
  have h: "handleSalaryChange ''-0'' = ''0''"
    by (simp add: handleSalaryChange_def)
  have p: "parseFloat_digits ''0'' = Finite 0"
    by (simp add: parseFloat_digits_def decimal_value_def round_to_double_0)
  show ?thesis
    using i r f h p
      zero_sentinel[where fromCountryData = "Some (sample_data country_ES (Some (Finite 0)) Map.empty)"
        and toCountryData = "Some (sample_data country_US (Some (Finite 105)) Map.empty)"
        and rts = "Some [''USD'' \<mapsto> Finite (9 / 8)]"
        and fromCountry = country_ES and toCountry = country_US
        and parsedSalary = "Finite 50000"]
      zero_sentinel[where fromCountryData = "Some (sample_data country_ES (Some (Finite 90)) Map.empty)"
        and toCountryData = "Some (sample_data country_US (Some (Finite 105)) Map.empty)"
        and rts = "Some Map.empty"
        and fromCountry = country_ES and toCountry = country_US
        and parsedSalary = "Finite 50000"]
      zero_sentinel[where input_value = "''-0''"
        and fd = "sample_data country_ES (Some (Finite 90)) Map.empty" and fromIndex = "Finite 90"
        and td = "sample_data country_US (Some (Finite 105)) Map.empty" and toIndex = "Finite 105"
        and r = "[''USD'' \<mapsto> Finite (9 / 8)]" and toCountry = country_US
        and toRate = "Finite (9 / 8)" and fromCountry = country_ES]
    by (simp add: sample_simps rate_of_def)
qed

theorem zero_sentinel_counterexample:
  "handleSalaryChange ''0'' = ''0''
   \<and> parseFloat_digits (handleSalaryChange ''0'') = Finite 0
   \<and> \<not> num_less (Finite 0) (parseFloat_digits (handleSalaryChange ''0''))
   \<and> computeEquivalentSalary (parseFloat_digits (handleSalaryChange ''0''))
       (Some (sample_data country_ES (Some (Finite 90)) Map.empty))
       (Some (sample_data country_US (Some (Finite 105)) Map.empty))
       (Some [''USD'' \<mapsto> PosInfinity]) country_ES country_US =
     \<lparr>equivalentSalary = NaN, equivalentSalaryInEUR = Finite 0\<rparr>
   \<and> computeEquivalentSalary (parseFloat_digits (handleSalaryChange ''0''))
       (Some (sample_data country_ES (Some (Finite 90)) Map.empty))
       (Some (sample_data country_US (Some (Finite 105)) Map.empty))
       (Some [''USD'' \<mapsto> PosInfinity]) country_ES country_US \<noteq> zero_result"
proof -
  have h: "handleSalaryChange ''0'' = ''0''"
    by (simp add: handleSalaryChange_def)
  have p: "parseFloat_digits ''0'' = Finite 0"
    by (simp add: parseFloat_digits_def decimal_value_def round_to_double_0)
  show ?thesis
    by (simp add: h p computeEquivalentSalary_def sample_simps rate_of_def zero_result_def
        double_eval)
qed

text \<open>
  Claim C3, as the code has it. Same currency \<open>X\<close> with an available rate and same
  finite nonzero index \<open>I\<close> on both sides, salary \<open>S\<close> a double other than \<open>NaN\<close>: the
  amount in the target currency is \<open>(S / rate) * rate\<close> in double arithmetic and the
  amount in the reference currency is \<open>S / rate\<close>; when \<open>X\<close> is EUR, whose rate is taken as
  1, both are \<open>S\<close> itself. For another currency the two roundings need not cancel: the
  counterexample below is \<open>S = 1\<close> at the rate 49, which returns \<open>1 - 2\<^sup>-\<^sup>5\<^sup>3\<close>. What
  holds then is that a finite result lies within \<open>|S| * 2\<^sup>-\<^sup>5\<^sup>1\<close> of \<open>S\<close>, as long as
  \<open>S\<close> and \<open>S / rate\<close> are not below the normal range of the doubles.
\<close>

theorem round_trip:
  assumes "is_double S" and "S \<noteq> NaN"
    and "priceIndex fd = Some (Finite i)" and "priceIndex td = Some (Finite i)" and "i \<noteq> 0"
    and "currency fromCountry = X" and "currency toCountry = X"
    and "rate_of r X = Some rate" and "truthy rate"
  shows "computeEquivalentSalary S (Some fd) (Some td) (Some r) fromCountry toCountry =
           \<lparr>equivalentSalary = num_mul (num_div S rate) rate,
            equivalentSalaryInEUR = num_div S rate\<rparr>
         \<and> (X = ''EUR'' \<longrightarrow>
              computeEquivalentSalary S (Some fd) (Some td) (Some r) fromCountry toCountry =
                \<lparr>equivalentSalary = S, equivalentSalaryInEUR = S\<rparr>)
         \<and> (\<forall>s q t. S = Finite s \<and> rate = Finite q \<and>
              2 powi (- 1021) \<le> \<bar>s\<bar> \<and> 2 powi (- 1022) \<le> \<bar>s / q\<bar> \<and>
              equivalentSalary
                (computeEquivalentSalary S (Some fd) (Some td) (Some r) fromCountry toCountry) =
                Finite t \<longrightarrow>
              \<bar>t - s\<bar> \<le> \<bar>s\<bar> * 2 powi (- 51))"
proof -
  have ns: "(if truthy S then S else Finite 0) = S"
    using assms(2) by (cases S) auto
  have one: "num_mul (num_div S rate) (num_div (Finite i) (Finite i)) = num_div S rate"
    using assms(5) num_div_self[of i]
    by (simp add: num_mul_one is_double_num_div del: num_div.simps)
  have main: "computeEquivalentSalary S (Some fd) (Some td) (Some r) fromCountry toCountry =
           \<lparr>equivalentSalary = num_mul (num_div S rate) rate,
            equivalentSalaryInEUR = num_div S rate\<rparr>"
    using assms(3-9) one
    by (simp add: computeEquivalentSalary_def Let_def ns round_to_double_1 del: num_div.simps)
  have eur: "num_div S (Finite 1) = S" "num_mul S (Finite 1) = S"
    using assms(1) by (simp_all add: num_div_one num_mul_one)
  have "X = ''EUR'' \<longrightarrow> rate = Finite 1" using assms(8) by (auto simp: rate_of_def)
  then have exact: "X = ''EUR'' \<longrightarrow>
      computeEquivalentSalary S (Some fd) (Some td) (Some r) fromCountry toCountry =
        \<lparr>equivalentSalary = S, equivalentSalaryInEUR = S\<rparr>"
    using main eur by auto
  have near: "\<bar>t - s\<bar> \<le> \<bar>s\<bar> * 2 powi (- 51)"
    if "S = Finite s" "rate = Finite q" "2 powi (- 1021) \<le> \<bar>s\<bar>" "2 powi (- 1022) \<le> \<bar>s / q\<bar>"
      "equivalentSalary
         (computeEquivalentSalary S (Some fd) (Some td) (Some r) fromCountry toCountry) =
         Finite t" for s q t
  proof -
    have q: "q \<noteq> 0" using assms(9) that(2) by simp
    have "num_mul (num_div (Finite s) (Finite q)) (Finite q) = Finite t"
      using that(1,2,5) unfolding main by (simp only: EquivalentSalary.select_convs)
    with q that(3,4) show ?thesis by (rule round_trip_error)
  qed
  from main exact near show ?thesis by blast
qed

theorem round_trip_witness:
  "computeEquivalentSalary (Finite 50000)
     (Some (sample_data country_ES (Some (Finite 90)) Map.empty))
     (Some (sample_data country_DE (Some (Finite 90)) Map.empty))
     (Some [''USD'' \<mapsto> Finite (9 / 8)]) country_ES country_DE =
   \<lparr>equivalentSalary = Finite 50000, equivalentSalaryInEUR = Finite 50000\<rparr>"
proof -
  have d: "is_double (Finite 50000)" by (simp add: double_eval)
  show ?thesis
    using d round_trip[of "Finite 50000" "sample_data country_ES (Some (Finite 90)) Map.empty" 90
        "sample_data country_DE (Some (Finite 90)) Map.empty" country_ES "''EUR''" country_DE
        "[''USD'' \<mapsto> Finite (9 / 8)]" "Finite 1"]
    by (simp add: sample_simps rate_of_def)
qed

theorem round_trip_counterexample:
  "computeEquivalentSalary (Finite 1)
     (Some (sample_data country_TR (Some (Finite 45)) Map.empty))
     (Some (sample_data country_TR (Some (Finite 45)) Map.empty))
     (Some [''TRY'' \<mapsto> Finite 49]) country_TR country_TR =
   \<lparr>equivalentSalary = Finite (9007199254740991 / 9007199254740992),
    equivalentSalaryInEUR = Finite (5882252574524729 / 288230376151711744)\<rparr>
   \<and> equivalentSalary (computeEquivalentSalary (Finite 1)
     (Some (sample_data country_TR (Some (Finite 45)) Map.empty))
     (Some (sample_data country_TR (Some (Finite 45)) Map.empty))
     (Some [''TRY'' \<mapsto> Finite 49]) country_TR country_TR) \<noteq> Finite 1"
  by (simp add: computeEquivalentSalary_def sample_simps rate_of_def double_eval)

section \<open>The category comparator\<close>

text \<open>
  Claim C4. With the data of both countries loaded, the comparator returns one entry per
  category, in the order of \<open>CATEGORIES\<close> and labelled with the category's id. The index
  of \<open>total\<close> is the overall price index. The entry of a category holds
  \<open>(toIndex / fromIndex - 1) * 100\<close> when both indices are present and the source index
  is not zero, and 0 when either index is missing or the source index is zero.
\<close>

theorem category_comparator:
  assumes "i < length cats"
  shows "length (priceLevelData cats (Some fd) (Some td)) = length cats
    \<and> categoryId (priceLevelData cats (Some fd) (Some td) ! i) = cats ! i
    \<and> category_index fd ''total'' = priceIndex fd
    \<and> category_index td ''total'' = priceIndex td
    \<and> (\<forall>fromIndex toIndex.
          category_index fd (cats ! i) = Some fromIndex \<and>
          category_index td (cats ! i) = Some toIndex \<and> fromIndex \<noteq> Finite 0 \<longrightarrow>
          percentageDiff (priceLevelData cats (Some fd) (Some td) ! i) =
            num_mul (num_sub (num_div toIndex fromIndex) (Finite 1)) (Finite 100))
    \<and> (category_index fd (cats ! i) = None \<or> category_index td (cats ! i) = None \<or>
        category_index fd (cats ! i) = Some (Finite 0) \<longrightarrow>
          percentageDiff (priceLevelData cats (Some fd) (Some td) ! i) = Finite 0)"
  using assms
  by (auto simp: priceLevelData_def priceLevelEntry_def category_index_def split: option.splits)

theorem category_comparator_witness:
  "(let entries = priceLevelData [''total'', ''housing'', ''food'']
       (Some (sample_data country_ES (Some (Finite 80))
          [''housing'' \<mapsto> Finite 0, ''food'' \<mapsto> Finite 85]))
       (Some (sample_data country_DE (Some (Finite 100)) [''housing'' \<mapsto> Finite 110]))
    in length entries = 3
     \<and> entries ! 0 = \<lparr>categoryId = ''total'', percentageDiff = Finite 25\<rparr>
     \<and> entries ! 1 = \<lparr>categoryId = ''housing'', percentageDiff = Finite 0\<rparr>
     \<and> entries ! 2 = \<lparr>categoryId = ''food'', percentageDiff = Finite 0\<rparr>)"
proof -
  let ?f = "sample_data country_ES (Some (Finite 80)) [''housing'' \<mapsto> Finite 0, ''food'' \<mapsto> Finite 85]"
  let ?t = "sample_data country_DE (Some (Finite 100)) [''housing'' \<mapsto> Finite 110]"
  let ?cs = "[''total'', ''housing'', ''food'']"
  have f: "category_index ?f ''total'' = Some (Finite 80)"
      "category_index ?f ''housing'' = Some (Finite 0)"
      "category_index ?f ''food'' = Some (Finite 85)"
    by (simp_all add: category_index_def sample_simps)
  have t: "category_index ?t ''total'' = Some (Finite 100)"
      "category_index ?t ''housing'' = Some (Finite 110)"
      "category_index ?t ''food'' = None"
    by (simp_all add: category_index_def sample_simps)
  have v: "num_mul (num_sub (num_div (Finite 100) (Finite 80)) (Finite 1)) (Finite 100) = Finite 25"
    by (simp add: num_sub_def double_eval)
  have 0: "categoryId (priceLevelData ?cs (Some ?f) (Some ?t) ! 0) = ''total''
       \<and> percentageDiff (priceLevelData ?cs (Some ?f) (Some ?t) ! 0) = Finite 25"
    using category_comparator[of 0 ?cs ?f ?t] f t v by (simp del: num_mul.simps num_div.simps)
  have 1: "categoryId (priceLevelData ?cs (Some ?f) (Some ?t) ! 1) = ''housing''
       \<and> percentageDiff (priceLevelData ?cs (Some ?f) (Some ?t) ! 1) = Finite 0"
    using category_comparator[of 1 ?cs ?f ?t] f t by (simp del: num_mul.simps num_div.simps)
  have 2: "categoryId (priceLevelData ?cs (Some ?f) (Some ?t) ! 2) = ''food''
       \<and> percentageDiff (priceLevelData ?cs (Some ?f) (Some ?t) ! 2) = Finite 0"
    using category_comparator[of 2 ?cs ?f ?t] f t by (simp del: num_mul.simps num_div.simps)
  have len: "length (priceLevelData ?cs (Some ?f) (Some ?t)) = 3"
    using category_comparator[of 0 ?cs ?f ?t] by simp
  show ?thesis
    unfolding Let_def using len 0 1 2 by (auto intro: PriceLevelData.equality)
qed

section \<open>The exchange-rate cache\<close>



text \<open>
  Claim C6 fails on the code. A snapshot dated yesterday is in the store and the request
  fails: one request is made, the error flag is set, but the rates in use stay
  undefined and the stored snapshot is never read into them.
\<close>

theorem stale_snapshot_not_served:
  "(let s = fetchRates sample_env_offline
              (sample_state (RatesSnapshot ''2026-11-02''
                 (Some [''USD'' \<mapsto> Finite 2, ''EUR'' \<mapsto> Finite 1])))
    in rates s = None \<and> ratesError s \<and> isLoadingRates s = False
       \<and> effects s = [NetworkRequest]
       \<and> rates_store s =
           RatesSnapshot ''2026-11-02'' (Some [''USD'' \<mapsto> Finite 2, ''EUR'' \<mapsto> Finite 1]))"
  by (simp add: fetchRates_def requestRates_def sample_state_def initialState_def
      sample_env_offline_def sample_env_def Let_def)

text \<open>What the user gets in that state: the zero result for a salary of 50000.\<close>

lemma stale_snapshot_zero_salary:
  "computeEquivalentSalary (Finite 50000)
     (Some (sample_data country_ES (Some (Finite 90)) Map.empty))
     (Some (sample_data country_US (Some (Finite 105)) Map.empty))
     (rates (fetchRates sample_env_offline
        (sample_state (RatesSnapshot ''2026-11-02''
           (Some [''USD'' \<mapsto> Finite 2, ''EUR'' \<mapsto> Finite 1])))))
     country_ES country_US = zero_result"
  by (simp add: fetchRates_def requestRates_def sample_state_def initialState_def
      sample_env_offline_def sample_env_def Let_def computeEquivalentSalary_def)

section \<open>Ranges of the generated indicators\<close>

lemma nd_consts:
  "nearest_double 0 = 0" "nearest_double 1 = 1" "nearest_double 4 = 4" "nearest_double 5 = 5"
  "nearest_double 6 = 6" "nearest_double 8 = 8" "nearest_double 9 = 9" "nearest_double 10 = 10"
  "nearest_double 14 = 14" "nearest_double 15 = 15" "nearest_double 20 = 20"
  "nearest_double 25 = 25" "nearest_double 30 = 30" "nearest_double 35 = 35"
  "nearest_double 45 = 45" "nearest_double 50 = 50" "nearest_double 53 = 53"
  "nearest_double 55 = 55" "nearest_double 58 = 58" "nearest_double 65 = 65"
  "nearest_double 72 = 72" "nearest_double 74 = 74" "nearest_double 78 = 78"
  "nearest_double 80 = 80" "nearest_double 82 = 82" "nearest_double 85 = 85"
  "nearest_double 86 = 86" "nearest_double 90 = 90" "nearest_double 10000 = 10000"
  by (simp_all add: nearest_double_def quantum_def binade_def round_half_even_def
      compute_bitlen power_int_minus Let_def)

lemma in_range_weaken:
  "in_range a b x \<Longrightarrow> a' \<le> a \<Longrightarrow> b \<le> b' \<Longrightarrow> in_range a' b' x"
  by (cases x) auto

lemma in_range_mul:
  assumes "in_range a b x" and "0 \<le> k"
    and "nearest_double (a * k) = a * k" and "nearest_double (b * k) = b * k"
    and "- (2 ^ 1024) < a * k" and "b * k < 2 ^ 1024"
  shows "in_range (a * k) (b * k) (num_mul x (Finite k))"
proof -
  obtain r where r: "x = Finite r" "a \<le> r" "r \<le> b" using assms(1) by (cases x) auto
  have "a * k \<le> r * k" "r * k \<le> b * k" using r assms(2) by (simp_all add: mult_right_mono)
  then have "in_range (a * k) (b * k) (round_to_double (r * k))"
    using assms(3-6) by (rule round_to_double_between)
  then show ?thesis by (simp add: r)
qed

lemma in_range_add:
  assumes "in_range a b x" and "in_range c d y"
    and "nearest_double (a + c) = a + c" and "nearest_double (b + d) = b + d"
    and "- (2 ^ 1024) < a + c" and "b + d < 2 ^ 1024"
  shows "in_range (a + c) (b + d) (num_add x y)"
proof -
  obtain r where r: "x = Finite r" "a \<le> r" "r \<le> b" using assms(1) by (cases x) auto
  obtain t where t: "y = Finite t" "c \<le> t" "t \<le> d" using assms(2) by (cases y) auto
  have "a + c \<le> r + t" "r + t \<le> b + d" using r t by simp_all
  then have "in_range (a + c) (b + d) (round_to_double (r + t))"
    using assms(3-6) by (rule round_to_double_between)
  then show ?thesis by (simp add: r t)
qed

lemma in_range_max:
  assumes "in_range a b x"
  shows "in_range (max c a) (max c b) (Math_max (Finite c) x)"
  using assms by (cases x) (auto simp: Math_max_def)

lemma in_range_min:
  assumes "in_range a b x"
  shows "in_range (min c a) (min c b) (Math_min (Finite c) x)"
  using assms by (cases x) (auto simp: Math_min_def)

lemma pseudoRandom_range:
  assumes "\<forall>h. \<bar>Math_sin e h\<bar> \<le> 1"
  shows "in_range 0 1 (pseudoRandom e seed)"
proof -
  define s where "s = Math_sin e (seed_hash seed)"
  have s: "- 1 \<le> s" "s \<le> 1" using assms[rule_format, of "seed_hash seed"] by (auto simp: s_def)
  have "in_range (- 10000) 10000 (round_to_double (s * 10000))"
    using s by (intro round_to_double_between) (simp_all add: nd_consts nearest_double_minus)
  then obtain r where r: "round_to_double (s * 10000) = Finite r"
    by (cases "round_to_double (s * 10000)") auto
  have "in_range 0 1 (round_to_double (r - of_int \<lfloor>r\<rfloor>))"
    by (intro round_to_double_between) (simp_all add: nd_consts, linarith+)
  then show ?thesis
    by (simp add: pseudoRandom_def Let_def s_def[symmetric] r num_sub_def)
qed

lemma getVar_range:
  assumes "\<forall>h. \<bar>Math_sin e h\<bar> \<le> 1" and "0 \<le> k"
    and "nearest_double k = k" and "nearest_double (2 * k) = 2 * k" and "2 * k < 2 ^ 1024"
  shows "in_range (- k) k (getVar e seed salt (Finite k))"
proof -
  let ?p = "pseudoRandom e (seed @ salt)"
  have p: "in_range 0 1 ?p" using assms(1) by (rule pseudoRandom_range)
  have m1: "in_range (0 * k) (1 * k) (num_mul ?p (Finite k))"
    by (rule in_range_mul[OF p]) (use assms in \<open>simp_all add: nd_consts\<close>)
  have m2: "in_range (0 * k * 2) (1 * k * 2) (num_mul (num_mul ?p (Finite k)) (Finite 2))"
    by (rule in_range_mul[OF m1]) (use assms in \<open>simp_all add: nd_consts mult.commute\<close>)
  have c: "in_range (- k) (- k) (Finite (- k))" by simp
  have "in_range (0 * k * 2 + - k) (1 * k * 2 + - k)
      (num_add (num_mul (num_mul ?p (Finite k)) (Finite 2)) (Finite (- k)))"
    by (rule in_range_add[OF m2 c])
       (use assms in \<open>simp_all add: nearest_double_minus mult.commute\<close>)
  then show ?thesis by (simp add: getVar_def num_sub_def)
qed

lemma getVar_ranges:
  assumes "\<forall>h. \<bar>Math_sin e h\<bar> \<le> 1"
  shows "in_range (- 4) 4 (getVar e seed salt (Finite 4))"
    and "in_range (- 10) 10 (getVar e seed salt (Finite 10))"
    and "in_range (- 15) 15 (getVar e seed salt (Finite 15))"
  using getVar_range[OF assms, of 4 seed salt] getVar_range[OF assms, of 10 seed salt]
    getVar_range[OF assms, of 15 seed salt]
  by (simp_all add: nd_consts)

lemma in_range_const: "in_range c c (Finite c)"
  by simp

lemma unemploymentRate_range:
  assumes "\<forall>h. \<bar>Math_sin e h\<bar> \<le> 1"
  shows "in_range 2 14 (qol_value (unemploymentRate (generateQualityOfLife e seed p isEU)))"
proof -
  let ?g = "getVar e seed ''unemp'' (Finite 4)"
  let ?adj = "if num_less (index p) (Finite 70) then Finite 5 else Finite 0"
  have g: "in_range (- 4) 4 ?g" by (rule getVar_ranges(1)[OF assms])
  have a1: "in_range (5 + - 4) (5 + 4) (num_add (Finite 5) ?g)"
    by (rule in_range_add[OF in_range_const g]) (simp_all add: nd_consts)
  have adj: "in_range 0 5 ?adj" by simp
  have a2: "in_range (5 + - 4 + 0) (5 + 4 + 5) (num_add (num_add (Finite 5) ?g) ?adj)"
    by (rule in_range_add[OF a1 adj]) (simp_all add: nd_consts)
  have "in_range (max 2 (5 + - 4 + 0)) (max 2 (5 + 4 + 5))
          (Math_max (Finite 2) (num_add (num_add (Finite 5) ?g) ?adj))"
    by (rule in_range_max[OF a2])
  then show ?thesis by (simp add: generateQualityOfLife_def)
qed

lemma lifeExpectancy_range:
  assumes "\<forall>h. \<bar>Math_sin e h\<bar> \<le> 1"
  shows "in_range 70 85 (qol_value (lifeExpectancy (generateQualityOfLife e seed p isEU)))"
proof -
  let ?g = "getVar e seed ''life'' (Finite 4)"
  let ?adj = "if num_less (Finite 100) (index p) then Finite 3 else Finite (- 2)"
  have g: "in_range (- 4) 4 ?g" by (rule getVar_ranges(1)[OF assms])
  have a1: "in_range (78 + - 4) (78 + 4) (num_add (Finite 78) ?g)"
    by (rule in_range_add[OF in_range_const g]) (simp_all add: nd_consts)
  have adj: "in_range (- 2) 3 ?adj" by simp
  have a2: "in_range (78 + - 4 + - 2) (78 + 4 + 3) (num_add (num_add (Finite 78) ?g) ?adj)"
    by (rule in_range_add[OF a1 adj]) (simp_all add: nd_consts)
  have "in_range (min 85 (max 70 (78 + - 4 + - 2))) (min 85 (max 70 (78 + 4 + 3)))
          (Math_min (Finite 85) (Math_max (Finite 70) (num_add (num_add (Finite 78) ?g) ?adj)))"
    by (rule in_range_min[OF in_range_max[OF a2]])
  then have "in_range 72 85
          (Math_min (Finite 85) (Math_max (Finite 70) (num_add (num_add (Finite 78) ?g) ?adj)))"
    by simp
  then show ?thesis by (simp add: generateQualityOfLife_def in_range_weaken)
qed

lemma safetyIndex_range:
  assumes "\<forall>h. \<bar>Math_sin e h\<bar> \<le> 1"
  shows "in_range 40 90 (qol_value (safetyIndex (generateQualityOfLife e seed p isEU)))"
proof -
  let ?g = "getVar e seed ''safe'' (Finite 15)"
  let ?adj = "if num_less (Finite 120) (index p) then Finite 10 else Finite 0"
  have g: "in_range (- 15) 15 ?g" by (rule getVar_ranges(3)[OF assms])
  have a1: "in_range (65 + - 15) (65 + 15) (num_add (Finite 65) ?g)"
    by (rule in_range_add[OF in_range_const g]) (simp_all add: nd_consts)
  have adj: "in_range 0 10 ?adj" by simp
  have a2: "in_range (65 + - 15 + 0) (65 + 15 + 10) (num_add (num_add (Finite 65) ?g) ?adj)"
    by (rule in_range_add[OF a1 adj]) (simp_all add: nd_consts)
  have "in_range (min 90 (max 40 (65 + - 15 + 0))) (min 90 (max 40 (65 + 15 + 10)))
          (Math_min (Finite 90) (Math_max (Finite 40) (num_add (num_add (Finite 65) ?g) ?adj)))"
    by (rule in_range_min[OF in_range_max[OF a2]])
  then have "in_range 50 90
          (Math_min (Finite 90) (Math_max (Finite 40) (num_add (num_add (Finite 65) ?g) ?adj)))"
    by simp
  then show ?thesis by (simp add: generateQualityOfLife_def in_range_weaken)
qed

lemma healthCareIndex_range:
  assumes "\<forall>h. \<bar>Math_sin e h\<bar> \<le> 1"
  shows "in_range 40 90 (qol_value (healthCareIndex (generateQualityOfLife e seed p isEU)))"
proof -
  let ?g = "getVar e seed ''health'' (Finite 10)"
  let ?adj = "if num_less (Finite 100) (index p) then Finite 8 else Finite (- 5)"
  have g: "in_range (- 10) 10 ?g" by (rule getVar_ranges(2)[OF assms])
  have a1: "in_range (68 + - 10) (68 + 10) (num_add (Finite 68) ?g)"
    by (rule in_range_add[OF in_range_const g]) (simp_all add: nd_consts)
  have adj: "in_range (- 5) 8 ?adj" by simp
  have a2: "in_range (68 + - 10 + - 5) (68 + 10 + 8) (num_add (num_add (Finite 68) ?g) ?adj)"
    by (rule in_range_add[OF a1 adj]) (simp_all add: nd_consts)
  have "in_range (min 90 (max 40 (68 + - 10 + - 5))) (min 90 (max 40 (68 + 10 + 8)))
          (Math_min (Finite 90) (Math_max (Finite 40) (num_add (num_add (Finite 68) ?g) ?adj)))"
    by (rule in_range_min[OF in_range_max[OF a2]])
  then have "in_range 53 86
          (Math_min (Finite 90) (Math_max (Finite 40) (num_add (num_add (Finite 68) ?g) ?adj)))"
    by simp
  then show ?thesis by (simp add: generateQualityOfLife_def in_range_weaken)
qed

lemma pollutionIndex_range:
  assumes "\<forall>h. \<bar>Math_sin e h\<bar> \<le> 1"
  shows "in_range 20 90 (qol_value (pollutionIndex (generateQualityOfLife e seed p isEU)))"
proof -
  let ?g = "getVar e seed ''poll'' (Finite 15)"
  let ?adj = "if num_less (Finite 100) (index p) then Finite 10 else Finite (- 10)"
  have g: "in_range (- 15) 15 ?g" by (rule getVar_ranges(3)[OF assms])
  have a1: "in_range (40 + - 15) (40 + 15) (num_add (Finite 40) ?g)"
    by (rule in_range_add[OF in_range_const g]) (simp_all add: nd_consts)
  have adj: "in_range (- 10) 10 (num_neg ?adj)" by simp
  have a2: "in_range (40 + - 15 + - 10) (40 + 15 + 10)
              (num_add (num_add (Finite 40) ?g) (num_neg ?adj))"
    by (rule in_range_add[OF a1 adj]) (simp_all add: nd_consts)
  have "in_range (min 90 (max 20 (40 + - 15 + - 10))) (min 90 (max 20 (40 + 15 + 10)))
          (Math_min (Finite 90) (Math_max (Finite 20)
             (num_add (num_add (Finite 40) ?g) (num_neg ?adj))))"
    by (rule in_range_min[OF in_range_max[OF a2]])
  then have "in_range 20 65
          (Math_min (Finite 90) (Math_max (Finite 20)
             (num_add (num_add (Finite 40) ?g) (num_neg ?adj))))"
    by simp
  then show ?thesis by (simp add: generateQualityOfLife_def num_sub_def in_range_weaken)
qed

lemma propertyPriceToIncomeRatio_range:
  assumes "\<forall>h. \<bar>Math_sin e h\<bar> \<le> 1"
  shows "in_range 5 14
           (qol_value (propertyPriceToIncomeRatio (generateQualityOfLife e seed p isEU)))"
proof -
  let ?g = "getVar e seed ''prop'' (Finite 4)"
  have g: "in_range (- 4) 4 ?g" by (rule getVar_ranges(1)[OF assms])
  have a1: "in_range (10 + - 4) (10 + 4) (num_add (Finite 10) ?g)"
    by (rule in_range_add[OF in_range_const g]) (simp_all add: nd_consts)
  have "in_range (max 5 (10 + - 4)) (max 5 (10 + 4))
          (Math_max (Finite 5) (num_add (Finite 10) ?g))"
    by (rule in_range_max[OF a1])
  then have "in_range 6 14 (Math_max (Finite 5) (num_add (Finite 10) ?g))" by simp
  then show ?thesis by (simp add: generateQualityOfLife_def in_range_weaken)
qed

lemma qualityOfLife_fullData:
  "\<exists>p isEU. qualityOfLife (fullData e country) = generateQualityOfLife e (code country) p isEU"
  by (auto simp: fullData_def generateSimulatedCountryData_def Let_def
      SelectableCountry.defs CountryData.defs)

text \<open>
  Claim C7. On a platform whose \<open>Math.sin\<close> returns values in \<open>[-1, 1]\<close>, for every
  country, known to the profile table or not, each generated quality-of-life indicator
  is a finite number within bounds: the unemployment rate in \<open>[2, 14]\<close>, the life
  expectancy in \<open>[70, 85]\<close>, the safety index in \<open>[40, 90]\<close>, the health-care index in
  \<open>[40, 90]\<close>, the pollution index in \<open>[20, 90]\<close> and the property-price-to-income ratio
  in \<open>[5, 14]\<close>.
\<close>

theorem quality_of_life_ranges:
  assumes "\<forall>h. \<bar>Math_sin e h\<bar> \<le> 1"
  shows "in_range 2 14 (qol_value (unemploymentRate (qualityOfLife (fullData e country))))
       \<and> in_range 70 85 (qol_value (lifeExpectancy (qualityOfLife (fullData e country))))
       \<and> in_range 40 90 (qol_value (safetyIndex (qualityOfLife (fullData e country))))
       \<and> in_range 40 90 (qol_value (healthCareIndex (qualityOfLife (fullData e country))))
       \<and> in_range 20 90 (qol_value (pollutionIndex (qualityOfLife (fullData e country))))
       \<and> in_range 5 14
           (qol_value (propertyPriceToIncomeRatio (qualityOfLife (fullData e country))))"
proof -
  obtain p isEU where q:
    "qualityOfLife (fullData e country) = generateQualityOfLife e (code country) p isEU"
    using qualityOfLife_fullData by blast
  show ?thesis
    unfolding q
    using unemploymentRate_range[OF assms] lifeExpectancy_range[OF assms]
      safetyIndex_range[OF assms] healthCareIndex_range[OF assms]
      pollutionIndex_range[OF assms] propertyPriceToIncomeRatio_range[OF assms]
    by (intro conjI)
qed

lemma sample_sin_range: "\<forall>h. \<bar>Math_sin sample_env h\<bar> \<le> 1"
proof
  fix h :: int
  have "0 \<le> h mod 2049" "h mod 2049 < 2049" by simp_all
  then have "- 1024 \<le> h mod 2049 - 1024" "h mod 2049 - 1024 \<le> 1024" by linarith+
  then have "\<bar>real_of_int (h mod 2049 - 1024)\<bar> \<le> 1024" by linarith
  then show "\<bar>Math_sin sample_env h\<bar> \<le> 1" by (simp add: sample_env_def)
qed

lemma seed_hash_TRsafe: "seed_hash ''TRsafe'' = - 1810867445"
  by (simp add: seed_hash_def hash_step_def toInt32_def)

lemma pseudoRandom_TRsafe: "pseudoRandom sample_env ''TRsafe'' = Finite (1 / 64)"
  by (simp add: pseudoRandom_def seed_hash_TRsafe sample_env_def num_sub_def double_eval)

lemma safetyIndex_TR:
  "qol_value (safetyIndex (qualityOfLife (fullData sample_env country_TR))) = Finite (1615 / 32)"
  by (simp add: fullData_def generateSimulatedCountryData_def generateQualityOfLife_def
      getVar_def pseudoRandom_TRsafe country_TR_def COUNTRY_PROFILES_def num_sub_def
      Math_min_def Math_max_def double_eval SelectableCountry.defs CountryData.defs)

theorem quality_of_life_ranges_witness:
  "(\<forall>h. \<bar>Math_sin sample_env h\<bar> \<le> 1)
   \<and> qol_value (safetyIndex (qualityOfLife (fullData sample_env country_TR))) = Finite (1615 / 32)
   \<and> in_range 40 90 (qol_value (safetyIndex (qualityOfLife (fullData sample_env country_TR))))
   \<and> in_range 2 14 (qol_value (unemploymentRate (qualityOfLife (fullData sample_env country_TR))))
   \<and> in_range 5 14
       (qol_value (propertyPriceToIncomeRatio (qualityOfLife (fullData sample_env country_TR))))"
  using sample_sin_range safetyIndex_TR
    quality_of_life_ranges[OF sample_sin_range, of country_TR]
  by (intro conjI) blast+

section \<open>Determinism of the generator\<close>

lemma toInt32_mod: "toInt32 n mod 2 ^ 32 = n mod 2 ^ 32"
proof -
  have "toInt32 n mod 2 ^ 32 = ((n + 2 ^ 31) mod 2 ^ 32 - 2 ^ 31) mod 2 ^ 32"
    by (simp add: toInt32_def)
  also have "\<dots> = ((n + 2 ^ 31) - 2 ^ 31) mod 2 ^ 32"
    by (rule mod_diff_left_eq)
  finally show ?thesis by simp
qed

lemma toInt32_cong:
  assumes "a mod 2 ^ 32 = b mod 2 ^ 32"
  shows "toInt32 a = toInt32 b"
proof -
  have "(a + 2 ^ 31) mod 2 ^ 32 = (a mod 2 ^ 32 + 2 ^ 31) mod 2 ^ 32"
    by (simp add: mod_add_left_eq)
  also have "\<dots> = (b + 2 ^ 31) mod 2 ^ 32"
    by (simp only: assms mod_add_left_eq)
  finally show ?thesis by (simp add: toInt32_def)
qed

lemma mod_sub_add_cong:
  fixes a b c m :: int
  assumes "a mod m = a' mod m" and "b mod m = b' mod m"
  shows "(a - b + c) mod m = (a' - b' + c) mod m"
proof -
  have "(a - b) mod m = (a' - b') mod m"
    using assms by (metis mod_diff_eq)
  then show ?thesis by (metis mod_add_left_eq)
qed

lemma hash_step_poly:
  "hash_step (toInt32 n) ch = toInt32 (31 * n + of_char ch)"
proof -
  let ?h = "toInt32 n"
  have h: "?h mod 2 ^ 32 = n mod 2 ^ 32" by (rule toInt32_mod)
  have "toInt32 (?h * 2 ^ 5) mod 2 ^ 32 = (?h * 2 ^ 5) mod 2 ^ 32" by (rule toInt32_mod)
  also have "\<dots> = (n * 2 ^ 5) mod 2 ^ 32" using h by (metis mod_mult_left_eq)
  finally have "(toInt32 (?h * 2 ^ 5) - ?h + of_char ch) mod 2 ^ 32
        = (n * 2 ^ 5 - n + of_char ch) mod 2 ^ 32"
    using h by (rule mod_sub_add_cong)
  also have "n * 2 ^ 5 - n + of_char ch = 31 * n + of_char ch" by simp
  finally show ?thesis unfolding hash_step_def by (rule toInt32_cong)
qed

lemma toInt32_0: "toInt32 0 = 0"
  by (simp add: toInt32_def)

lemma seed_hash_polynomial: "seed_hash seed = toInt32 (polynomial_hash seed)"
proof (induction seed rule: rev_induct)
  case Nil
  show ?case by (simp add: seed_hash_def polynomial_hash_def toInt32_0)
next
  case (snoc ch seed)
  have "seed_hash (seed @ [ch]) = hash_step (seed_hash seed) ch"
    by (simp add: seed_hash_def)
  also have "\<dots> = hash_step (toInt32 (polynomial_hash seed)) ch"
    by (simp only: snoc.IH)
  also have "\<dots> = toInt32 (31 * polynomial_hash seed + of_char ch)"
    by (rule hash_step_poly)
  also have "\<dots> = toInt32 (polynomial_hash (seed @ [ch]))"
    by (simp add: polynomial_hash_def)
  finally show ?case .
qed

lemma pseudoRandom_env:
  assumes "Math_sin e1 = Math_sin e2"
  shows "pseudoRandom e1 seed = pseudoRandom e2 seed"
  by (simp add: pseudoRandom_def assms)

lemma generator_env:
  assumes "Math_sin e1 = Math_sin e2" and "CATEGORIES e1 = CATEGORIES e2"
    and "code c1 = code c2"
  shows "generateSimulatedCountryData e1 c1 = generateSimulatedCountryData e2 c2"
proof -
  have g: "getVar e1 seed salt k = getVar e2 seed salt k" for seed salt k
    by (simp add: getVar_def pseudoRandom_env[OF assms(1)])
  have c: "generateCategoryPrices e1 seed p = generateCategoryPrices e2 seed p" for seed p
    by (simp add: generateCategoryPrices_def g assms(2) cong: if_cong)
  have q: "generateQualityOfLife e1 seed p b = generateQualityOfLife e2 seed p b" for seed p b
    by (simp add: generateQualityOfLife_def g cong: if_cong)
  show ?thesis
    unfolding generateSimulatedCountryData_def c q assms(3) by (rule refl)
qed


lemma fullData_env:
  assumes "Math_sin e1 = Math_sin e2" and "CATEGORIES e1 = CATEGORIES e2"
  shows "fullData e1 country = fullData e2 country"
  by (simp add: fullData_def generator_env[OF assms refl])

text \<open>
  Claim C8. Two runs of the generator for the same country code in the same month, on
  the same platform and with the same category list, return the same data, whatever
  else differs between the two environments and the two states: the pseudo-random
  function depends on its seed string alone, through the 32-bit wrap of the polynomial
  hash with base 31, and the cache entry and the stored entry that a finished request
  writes are the same.
\<close>

theorem generator_deterministic:
  assumes "Math_sin e1 = Math_sin e2" and "CATEGORIES e1 = CATEGORIES e2"
    and "currentMonthKey e1 = currentMonthKey e2"
    and "code c1 = code c2"
  shows "generateSimulatedCountryData e1 c1 = generateSimulatedCountryData e2 c2
       \<and> pseudoRandom e1 seed = pseudoRandom e2 seed
       \<and> seed_hash seed = toInt32 (polynomial_hash seed)
       \<and> (\<not> setItem_throws e1 \<and> \<not> setItem_throws e2 \<longrightarrow>
            countryDataCache (fetchCountryData_finish e1 p s1) (pending_countryCode p) =
            countryDataCache (fetchCountryData_finish e2 p s2) (pending_countryCode p)
          \<and> data_store (fetchCountryData_finish e1 p s1) (pending_countryCode p) =
            data_store (fetchCountryData_finish e2 p s2) (pending_countryCode p))"
proof -
  have f: "fullData e1 (pending_country p) = fullData e2 (pending_country p)"
    using assms(1,2) by (rule fullData_env)
  show ?thesis
    using generator_env[OF assms(1,2,4)] pseudoRandom_env[OF assms(1), of seed]
      seed_hash_polynomial[of seed] f
    by (simp add: fetchCountryData_finish_def Let_def)
qed

theorem generator_deterministic_witness:
  "generateSimulatedCountryData sample_env country_TR =
     generateSimulatedCountryData
       (sample_env\<lparr>today := ''2026-11-20'', fetch_response := FetchFailed\<rparr>)
       (country_TR\<lparr>name := ''Turkiye''\<rparr>)
   \<and> seed_hash ''TRsafe'' = toInt32 (polynomial_hash ''TRsafe'')
   \<and> seed_hash ''TRsafe'' = - 1810867445"
  using generator_deterministic[of sample_env
      "sample_env\<lparr>today := ''2026-11-20'', fetch_response := FetchFailed\<rparr>"
      country_TR "country_TR\<lparr>name := ''Turkiye''\<rparr>" "''TRsafe''"]
    seed_hash_TRsafe
  by (simp add: country_TR_def)

text \<open>
  Claim C10. The generated data does not depend on the month. An entry written in one
  month is discarded by the initial cache of a session in another month, and the
  request that follows regenerates data equal to the data discarded, stored under the
  new month key.
\<close>

theorem month_independent:
  assumes "Math_sin e1 = Math_sin e2" and "CATEGORIES e1 = CATEGORIES e2"
    and "currentMonthKey e1 \<noteq> currentMonthKey e2"
    and "find (\<lambda>c. code c = code country) (SELECTABLE_COUNTRIES e1) = Some country"
    and "find (\<lambda>c. code c = code country) (SELECTABLE_COUNTRIES e2) = Some country"
    and "\<not> setItem_throws e1" and "\<not> setItem_throws e2"
    and "initialCache e1 store0 (code country) = None"
    and "store1 = data_store (fetchCountryData e1 (initialState e1 rs store0) (code country))"
  shows "generateSimulatedCountryData e1 country = generateSimulatedCountryData e2 country
       \<and> store1 (code country) =
           Some (DataSnapshot (currentMonthKey e1) (Some (fullData e1 country)))
       \<and> initialCache e2 store1 (code country) = None
       \<and> countryDataCache (fetchCountryData e2 (initialState e2 rs store1) (code country))
            (code country) = Some (fullData e1 country)
       \<and> data_store (fetchCountryData e2 (initialState e2 rs store1) (code country))
            (code country) = Some (DataSnapshot (currentMonthKey e2) (Some (fullData e1 country)))"
proof -
  have g: "generateSimulatedCountryData e1 country = generateSimulatedCountryData e2 country"
    using assms(1,2) refl by (rule generator_env)
  have f: "fullData e2 country = fullData e1 country"
    using fullData_env[OF assms(1,2)] by simp
  have s1: "store1 (code country) =
           Some (DataSnapshot (currentMonthKey e1) (Some (fullData e1 country)))"
    using assms(4,6,8)
    by (simp add: assms(9) fetchCountryData_def fetchCountryData_start_def
        fetchCountryData_finish_def initialState_def Let_def)
  have i: "initialCache e2 store1 (code country) = None"
    using assms(3) by (simp add: initialCache_def s1)
  have c: "countryDataCache (fetchCountryData e2 (initialState e2 rs store1) (code country))
            (code country) = Some (fullData e1 country)"
    using assms(5,7) i
    by (simp add: fetchCountryData_def fetchCountryData_start_def
        fetchCountryData_finish_def initialState_def Let_def f)
  have d: "data_store (fetchCountryData e2 (initialState e2 rs store1) (code country))
            (code country) = Some (DataSnapshot (currentMonthKey e2) (Some (fullData e1 country)))"
    using assms(5,7) i
    by (simp add: fetchCountryData_def fetchCountryData_start_def
        fetchCountryData_finish_def initialState_def Let_def f)
  from g s1 i c d show ?thesis by (intro conjI)
qed

theorem month_independent_witness:
  "currentMonthKey sample_env \<noteq> currentMonthKey sample_env_december
   \<and> generateSimulatedCountryData sample_env country_TR =
       generateSimulatedCountryData sample_env_december country_TR
   \<and> initialCache sample_env_december
        (data_store (fetchCountryData sample_env (sample_state NoRates) ''TR'')) ''TR'' = None
   \<and> countryDataCache
        (fetchCountryData sample_env_december
           (initialState sample_env_december NoRates
              (data_store (fetchCountryData sample_env (sample_state NoRates) ''TR'')))
           ''TR'') ''TR'' = Some (fullData sample_env country_TR)"
proof -
  have m: "Math_sin sample_env = Math_sin sample_env_december"
      "CATEGORIES sample_env = CATEGORIES sample_env_december"
      "currentMonthKey sample_env \<noteq> currentMonthKey sample_env_december"
    by (simp_all add: sample_env_december_def sample_env_def)
  have f: "find (\<lambda>c. code c = code country_TR) (SELECTABLE_COUNTRIES sample_env) = Some country_TR"
      "find (\<lambda>c. code c = code country_TR) (SELECTABLE_COUNTRIES sample_env_december) =
         Some country_TR"
    by (simp_all add: sample_env_december_def sample_env_def country_TR_def country_ES_def
        country_DE_def country_US_def)
  have t: "\<not> setItem_throws sample_env" "\<not> setItem_throws sample_env_december"
    by (simp_all add: sample_env_december_def sample_env_def)
  have i: "initialCache sample_env Map.empty (code country_TR) = None"
    by (simp add: initialCache_def)
  have c: "code country_TR = ''TR''" by (simp add: country_TR_def)
  show ?thesis
    using month_independent[OF m f t i, of _ NoRates] m(3)
    by (simp add: sample_state_def c)
qed

section \<open>The reentrancy guard\<close>




end
